theory Spec2Isabelle
  imports Main
begin

section \<open>JSON Web Tokens, as the controllers and the middleware use them\<close>

text \<open>
  The server signs and verifies its tokens with the \<^verbatim>\<open>jsonwebtoken\<close> package
  (\<^verbatim>\<open>jwt.sign\<close>, \<^verbatim>\<open>jwt.verify\<close>), which is imported by the controller and the
  middleware and is not among the repository's files. A token is the string
  \<^verbatim>\<open>base64url(header).base64url(payload).signature\<close>: the payload is only encoded, never
  encrypted, and the signature is the HMAC-SHA256 of header and payload under the secret.
  The model keeps the parts apart instead of the encoded string: the payload is a
  readable component of the token, and the signature is the symbolic term
  \<open>HS256 secret payload\<close> (two signatures are equal exactly when secret and payload are).
  \<open>Opaque s\<close> is any string that does not have the form of a token; \<open>Opaque []\<close> is the
  empty string, the only falsy token value.

  Times are milliseconds since the epoch (\<^verbatim>\<open>Date.now()\<close>); the package counts in
  seconds, \<^verbatim>\<open>Math.floor(Date.now() / 1000)\<close>. A time to live is given in seconds.
\<close>

type_synonym objectId = string

datatype token = Opaque string | Jwt payload mac
  and payload = Payload claims (iat: nat) (exp: nat)
  and claims = IdClaims objectId | TokenClaims token
  and mac = HS256 string payload | OtherMac string

primrec payloadClaims :: "payload \<Rightarrow> claims" where
  "payloadClaims (Payload c i e) = c"

text \<open>\<^verbatim>\<open>decoded.id\<close>: the \<^verbatim>\<open>id\<close> property of a decoded payload, \<^verbatim>\<open>undefined\<close> (None)
  when the payload has no such property.\<close>

primrec claimsId :: "claims \<Rightarrow> objectId option" where
  "claimsId (IdClaims u) = Some u"
| "claimsId (TokenClaims t) = None"

text \<open>\<^verbatim>\<open>decoded.token\<close> likewise.\<close>

primrec claimsToken :: "claims \<Rightarrow> token option" where
  "claimsToken (IdClaims u) = None"
| "claimsToken (TokenClaims t) = Some t"

text \<open>JavaScript truthiness of a token value: every string but the empty one.\<close>

fun truthy :: "token \<Rightarrow> bool" where
  "truthy (Opaque s) = (s \<noteq> [])"
| "truthy (Jwt p m) = True"

text \<open>Modelled from the spec: \<^verbatim>\<open>jwt.sign\<close> of the \<^verbatim>\<open>jsonwebtoken\<close> package, which is
  not among the repository's files. The specification's \<^verbatim>\<open>sign(subjectId, ttl)\<close> produces
  a tamper-evident token that embeds the subject and an absolute expiry computed as now
  plus ttl, signed with a keyed signature. For
  \<^verbatim>\<open>jwt.sign(claims, secret, { expiresIn: ttl })\<close> at time \<open>now\<close>:
  \<^verbatim>\<open>iat = floor(now / 1000)\<close>, \<^verbatim>\<open>exp = iat + ttl\<close>.\<close>

definition jwt_sign :: "claims \<Rightarrow> string \<Rightarrow> nat \<Rightarrow> nat \<Rightarrow> token" where
  "jwt_sign c secret ttl now =
     (let p = Payload c (now div 1000) (now div 1000 + ttl) in Jwt p (HS256 secret p))"

datatype jwtError = JsonWebTokenError | TokenExpiredError

text \<open>Modelled from the spec: \<^verbatim>\<open>jwt.verify\<close> of the \<^verbatim>\<open>jsonwebtoken\<close> package, which
  is not among the repository's files. The specification's \<^verbatim>\<open>verify(token)\<close> checks
  signature integrity and expiry, fails with Malformed if signature or structure is
  invalid and with the distinct Expired once the expiry has passed (at a time at or after
  issuedAt + ttl). For \<^verbatim>\<open>jwt.verify(token, secret)\<close> at time \<open>now\<close>: a string that is no
  token, or a signature that is not the secret's, throws \<^verbatim>\<open>JsonWebTokenError\<close>; then
  \<^verbatim>\<open>floor(now / 1000) >= exp\<close> throws \<^verbatim>\<open>TokenExpiredError\<close>; otherwise the payload is
  returned.\<close>

fun jwt_verify :: "token \<Rightarrow> string \<Rightarrow> nat \<Rightarrow> jwtError + payload" where
  "jwt_verify (Opaque s) secret now = Inl JsonWebTokenError"
| "jwt_verify (Jwt p m) secret now =
     (if m \<noteq> HS256 secret p then Inl JsonWebTokenError
      else if exp p \<le> now div 1000 then Inl TokenExpiredError
      else Inr p)"

text \<open>Reading the payload off a token needs no secret: it is the second part of the
  string, base64url-decoded (the package offers this as \<^verbatim>\<open>jwt.decode\<close>). The server
  never calls it; it stands for what anyone holding a token can compute.\<close>

fun jwt_decode :: "token \<Rightarrow> payload option" where
  "jwt_decode (Opaque s) = None"
| "jwt_decode (Jwt p m) = Some p"

section \<open>Configuration and environment\<close>

text \<open>
  \<^verbatim>\<open>process.env\<close>, after its defaults: the two secrets, the lifetimes of access and refresh
  tokens in seconds (\<^verbatim>\<open>JWT_EXPIRE || '15m'\<close>, \<^verbatim>\<open>JWT_REFRESH_EXPIRE || '7d'\<close>), the
  cookie lifetime in minutes (\<^verbatim>\<open>parseInt(JWT_EXPIRE_MINUTES || '15')\<close>) and whether
  \<^verbatim>\<open>NODE_ENV\<close> is \<^verbatim>\<open>'production'\<close>.
\<close>

record config =
  JWT_SECRET :: string
  JWT_REFRESH_SECRET :: string
  JWT_EXPIRE :: nat
  JWT_REFRESH_EXPIRE :: nat
  JWT_EXPIRE_MINUTES :: nat
  isProduction :: bool

section \<open>Errors and the error handler (middleware/errorHandler.js)\<close>

datatype codeval = CodeStr string | CodeNum nat

text \<open>An error object: \<^verbatim>\<open>name\<close>, \<^verbatim>\<open>message\<close>, and the properties the handler reads
  (\<^verbatim>\<open>statusCode\<close>, \<^verbatim>\<open>code\<close>, the messages of \<^verbatim>\<open>errors\<close>); a property that is absent,
  \<^verbatim>\<open>undefined\<close> or \<^verbatim>\<open>null\<close> is None.\<close>

record err =
  errName :: string
  errMessage :: string
  errStatusCode :: "nat option"
  errCode :: "codeval option"
  errStatus :: string
  isOperational :: bool
  errErrors :: "string list"

text \<open>\<^verbatim>\<open>new AppError(message, statusCode, code = null)\<close>; an argument left out is
  \<^verbatim>\<open>undefined\<close> (None). \<^verbatim>\<open>super(undefined)\<close> gives the empty message, and
  \<^verbatim>\<open>undefined >= 400\<close> is false.\<close>

definition AppError :: "string option \<Rightarrow> nat option \<Rightarrow> codeval option \<Rightarrow> err" where
  "AppError message statusCode code =
     \<lparr> errName = ''Error'',
       errMessage = (case message of None \<Rightarrow> [] | Some m \<Rightarrow> m),
       errStatusCode = statusCode,
       errCode = code,
       errStatus = (case statusCode of
                      None \<Rightarrow> ''error''
                    | Some n \<Rightarrow> if 400 \<le> n \<and> n < 500 then ''fail'' else ''error''),
       isOperational = True,
       errErrors = [] \<rparr>"

text \<open>\<^verbatim>\<open>messages.join('. ')\<close>\<close>

fun joinMessages :: "string list \<Rightarrow> string" where
  "joinMessages [] = []"
| "joinMessages [m] = m"
| "joinMessages (m # ms) = m @ ''. '' @ joinMessages ms"

definition handleValidationError :: "err \<Rightarrow> err" where
  "handleValidationError error =
     AppError (Some (joinMessages (errErrors error))) (Some 400) (Some (CodeStr ''VALIDATION_ERROR''))"

text \<open>\<^verbatim>\<open>error.message.match(/index: (\w+)/)?.[1]\<close>: the first place where \<^verbatim>\<open>index: \<close> is
  followed by a word character, and the longest run of word characters there.\<close>

definition wordChar :: "char \<Rightarrow> bool" where
  "wordChar c = (c \<in> set ''abcdefghijklmnopqrstuvwxyzABCDEFGHIJKLMNOPQRSTUVWXYZ0123456789_'')"

fun matchIndex :: "string \<Rightarrow> string option" where
  "matchIndex [] = None"
| "matchIndex (c # cs) =
     (if take 7 (c # cs) = ''index: '' \<and> takeWhile wordChar (drop 7 (c # cs)) \<noteq> []
      then Some (takeWhile wordChar (drop 7 (c # cs)))
      else matchIndex cs)"

definition handleDuplicateKeyError :: "err \<Rightarrow> err" where
  "handleDuplicateKeyError error =
     (let field = (case matchIndex (errMessage error) of None \<Rightarrow> ''field'' | Some f \<Rightarrow> f)
      in AppError (Some (''A record with this '' @ field @ '' already exists.'')) (Some 400)
           (Some (CodeStr ''DUPLICATE_KEY'')))"

definition handleCastError :: "err \<Rightarrow> err" where
  "handleCastError error =
     AppError (Some ''Invalid resource ID provided.'') (Some 400) (Some (CodeStr ''INVALID_ID''))"

definition handleJWTError :: err where
  "handleJWTError =
     AppError (Some ''Invalid token. Please login again.'') (Some 401) (Some (CodeStr ''INVALID_TOKEN''))"

definition handleJWTExpiration :: err where
  "handleJWTExpiration =
     AppError (Some ''Session expired. Please login again.'') (Some 401) (Some (CodeStr ''TOKEN_EXPIRED''))"

text \<open>The JSON bodies the server sends.\<close>

record publicProfile =
  profileId :: objectId
  profileEmail :: string
  profileName :: string
  profileCreatedAt :: nat
  profileLastLogin :: "nat option"

datatype resBody =
    AuthBody bool string publicProfile token
  | RefreshBody bool string token
  | ErrorBody bool string codeval

record cookieOptions =
  expires :: nat
  httpOnly :: bool
  secure :: bool
  sameSite :: string

text \<open>A response: its status, the cookies it sets (name, value, options) and its body.\<close>

record response =
  resStatus :: nat
  resCookies :: "(string \<times> token \<times> cookieOptions) list"
  resBody :: resBody

text \<open>\<^verbatim>\<open>x || d\<close> on the values the handler reads: 0, the empty string and an absent
  value are falsy.\<close>

definition truthyCode :: "codeval \<Rightarrow> bool" where
  "truthyCode c = (case c of CodeStr s \<Rightarrow> s \<noteq> [] | CodeNum n \<Rightarrow> n \<noteq> 0)"

text \<open>\<^verbatim>\<open>errorHandler(err, req, res, next)\<close>. The five tests read \<^verbatim>\<open>err\<close>, one after the
  other, and each replaces \<^verbatim>\<open>error\<close>. The \<^verbatim>\<open>stack\<close> property, sent in development
  only, is left out.\<close>

definition errorHandler :: "err \<Rightarrow> response" where
  "errorHandler e =
     (let error = e;
          error = (if errName e = ''ValidationError'' then handleValidationError e else error);
          error = (if errCode e = Some (CodeNum 11000) then handleDuplicateKeyError e else error);
          error = (if errName e = ''CastError'' then handleCastError e else error);
          error = (if errName e = ''JsonWebTokenError'' then handleJWTError else error);
          error = (if errName e = ''TokenExpiredError'' then handleJWTExpiration else error);
          statusCode = (case errStatusCode error of
                          None \<Rightarrow> 500
                        | Some n \<Rightarrow> if n = 0 then 500 else n);
          message = (if errMessage error = [] then ''Internal Server Error'' else errMessage error)
      in \<lparr> resStatus = statusCode,
           resCookies = [],
           resBody = ErrorBody False message
             (case errCode error of
                None \<Rightarrow> CodeStr ''SERVER_ERROR''
              | Some c \<Rightarrow> if truthyCode c then c else CodeStr ''SERVER_ERROR'') \<rparr>)"

text \<open>What a handler wrapped in \<^verbatim>\<open>asyncHandler\<close> does with the request: it sends a
  response, or it calls \<^verbatim>\<open>next(error)\<close>, or it throws (its promise rejects), and
  \<^verbatim>\<open>asyncHandler\<close> passes what was thrown to \<^verbatim>\<open>next\<close>. Express hands the argument
  of \<^verbatim>\<open>next\<close> to \<^verbatim>\<open>errorHandler\<close>.\<close>

datatype outcome = Sent response | Next err | Thrown err

fun asyncHandler :: "outcome \<Rightarrow> response" where
  "asyncHandler (Sent r) = r"
| "asyncHandler (Next e) = errorHandler e"
| "asyncHandler (Thrown e) = errorHandler e"

section \<open>The persisted documents (models/RefreshToken.js, models/User.js)\<close>

text \<open>A refresh-token document: the stored \<^verbatim>\<open>token\<close>, the owning \<^verbatim>\<open>user\<close>, and the
  schema's other fields. A collection is the list of its documents in insertion order.\<close>

record refreshTokenDoc =
  token :: token
  user :: objectId
  expiresAt :: nat
  isRevoked :: bool
  createdAt :: nat
  userAgent :: string
  ipAddress :: string

record userDoc =
  user_id :: objectId
  email :: string
  password :: string
  name :: string
  userCreatedAt :: nat
  lastLogin :: "nat option"

definition getPublicProfile :: "userDoc \<Rightarrow> publicProfile" where
  "getPublicProfile u =
     \<lparr> profileId = user_id u, profileEmail = email u, profileName = name u,
       profileCreatedAt = userCreatedAt u, profileLastLogin = lastLogin u \<rparr>"

text \<open>
  What one request meets outside the handler: the clock (\<^verbatim>\<open>Date.now()\<close>, read once for
  the whole request) and, for each database call the handlers make, the error it throws
  if it fails (None when it succeeds). A call that throws leaves its collection as it was.
\<close>

record world =
  now :: nat
  findOneFault :: "err option"
  saveFault :: "err option"
  createFault :: "err option"
  userSaveFault :: "err option"
  findByIdFault :: "err option"
  deleteManyFault :: "err option"
  updateManyFault :: "err option"

text \<open>The parts of a request the handlers read: the cookies \<^verbatim>\<open>token\<close> and
  \<^verbatim>\<open>refreshToken\<close>, \<^verbatim>\<open>req.body.refreshToken\<close>, the \<^verbatim>\<open>user-agent\<close> header,
  \<^verbatim>\<open>req.ip\<close> and \<^verbatim>\<open>req.connection.remoteAddress\<close>.\<close>

record request =
  cookies_token :: "token option"
  cookies_refreshToken :: "token option"
  body_refreshToken :: "token option"
  headers_userAgent :: "string option"
  ip :: "string option"
  remoteAddress :: "string option"

text \<open>\<^verbatim>\<open>a || b\<close> on optional strings and on optional tokens, and
  \<^verbatim>\<open>a || 'default'\<close>.\<close>

definition orString :: "string option \<Rightarrow> string option \<Rightarrow> string option" where
  "orString a b = (case a of None \<Rightarrow> b | Some s \<Rightarrow> if s = [] then b else Some s)"

definition orToken :: "token option \<Rightarrow> token option \<Rightarrow> token option" where
  "orToken a b = (case a of None \<Rightarrow> b | Some t \<Rightarrow> if truthy t then Some t else b)"

definition orDefault :: "string option \<Rightarrow> string \<Rightarrow> string" where
  "orDefault a d = (case a of None \<Rightarrow> d | Some s \<Rightarrow> if s = [] then d else s)"

text \<open>\<^verbatim>\<open>req.headers['user-agent'] || 'Unknown'\<close> and
  \<^verbatim>\<open>req.ip || req.connection.remoteAddress || 'Unknown'\<close>\<close>

definition reqUserAgent :: "request \<Rightarrow> string" where
  "reqUserAgent req = orDefault (headers_userAgent req) ''Unknown''"

definition reqIpAddress :: "request \<Rightarrow> string" where
  "reqIpAddress req = orDefault (orString (ip req) (remoteAddress req)) ''Unknown''"

text \<open>Seven days, in seconds (\<^verbatim>\<open>expiresIn: '7d'\<close>) and in milliseconds
  (\<^verbatim>\<open>expiresAt.setDate(expiresAt.getDate() + 7)\<close>, on a clock with no change of
  daylight saving time in between).\<close>

definition sevenDaysSeconds :: nat where
  "sevenDaysSeconds = 604800"

definition sevenDaysMillis :: nat where
  "sevenDaysMillis = 604800000"

section \<open>The authentication controller (controllers/authController.js)\<close>

definition generateAccessToken :: "config \<Rightarrow> world \<Rightarrow> objectId \<Rightarrow> token" where
  "generateAccessToken cfg w userId =
     jwt_sign (IdClaims userId) (JWT_SECRET cfg) (JWT_EXPIRE cfg) (now w)"

definition generateRefreshToken :: "config \<Rightarrow> world \<Rightarrow> objectId \<Rightarrow> token" where
  "generateRefreshToken cfg w userId =
     jwt_sign (IdClaims userId) (JWT_REFRESH_SECRET cfg) (JWT_REFRESH_EXPIRE cfg) (now w)"

text \<open>The value stored in a document's \<^verbatim>\<open>token\<close> field, which the source calls
  \<^verbatim>\<open>hashedToken\<close>: \<^verbatim>\<open>jwt.sign({ token: refreshToken }, JWT_REFRESH_SECRET, { expiresIn: '7d' })\<close>.\<close>

definition hashedToken :: "config \<Rightarrow> world \<Rightarrow> token \<Rightarrow> token" where
  "hashedToken cfg w refreshToken =
     jwt_sign (TokenClaims refreshToken) (JWT_REFRESH_SECRET cfg) sevenDaysSeconds (now w)"

text \<open>The document \<^verbatim>\<open>RefreshToken.create({ token, user, expiresAt, userAgent, ipAddress })\<close>
  inserts; \<^verbatim>\<open>isRevoked\<close> and \<^verbatim>\<open>createdAt\<close> take the schema's defaults.\<close>

definition newRefreshTokenDoc :: "config \<Rightarrow> world \<Rightarrow> request \<Rightarrow> objectId \<Rightarrow> token \<Rightarrow> refreshTokenDoc" where
  "newRefreshTokenDoc cfg w req userId refreshToken =
     \<lparr> token = hashedToken cfg w refreshToken,
       user = userId,
       expiresAt = now w + sevenDaysMillis,
       isRevoked = False,
       createdAt = now w,
       userAgent = reqUserAgent req,
       ipAddress = reqIpAddress req \<rparr>"

definition accessCookieOptions :: "config \<Rightarrow> world \<Rightarrow> cookieOptions" where
  "accessCookieOptions cfg w =
     \<lparr> expires = now w + JWT_EXPIRE_MINUTES cfg * 60 * 1000,
       httpOnly = True,
       secure = isProduction cfg,
       sameSite = (if isProduction cfg then ''none'' else ''lax'') \<rparr>"

text \<open>
  \<^verbatim>\<open>sendTokenResponse(user, statusCode, refreshToken, req, res)\<close>, which \<^verbatim>\<open>register\<close>
  (status 201) and \<^verbatim>\<open>login\<close> (status 200) call once the identity is established, with
  \<^verbatim>\<open>refreshToken = generateRefreshToken(user._id)\<close>. It returns the refresh-token
  collection, the user document as persisted, and what became of the request. The
  \<^verbatim>\<open>create\<close> is inside \<^verbatim>\<open>try\<close>/\<^verbatim>\<open>catch\<close>; \<^verbatim>\<open>user.save\<close> is not.
\<close>

definition sendTokenResponse ::
  "config \<Rightarrow> world \<Rightarrow> userDoc \<Rightarrow> nat \<Rightarrow> token \<Rightarrow> request \<Rightarrow> refreshTokenDoc list
     \<Rightarrow> refreshTokenDoc list \<times> userDoc \<times> outcome" where
  "sendTokenResponse cfg w u statusCode refreshToken req db =
     (let accessToken = generateAccessToken cfg w (user_id u);
          db' = (if truthy refreshToken
                 then (case createFault w of
                         None \<Rightarrow> db @ [newRefreshTokenDoc cfg w req (user_id u) refreshToken]
                       | Some e \<Rightarrow> db)
                 else db);
          u' = u\<lparr>lastLogin := Some (now w)\<rparr>
      in case userSaveFault w of
           Some e \<Rightarrow> (db', u, Thrown e)
         | None \<Rightarrow>
             (db', u',
              Sent \<lparr> resStatus = statusCode,
                     resCookies = [(''token'', accessToken, accessCookieOptions cfg w)],
                     resBody = AuthBody True ''Authentication successful''
                                 (getPublicProfile u') accessToken \<rparr>))"

text \<open>\<^verbatim>\<open>RefreshToken.findOne({ user: id, isRevoked: false })\<close>: the position of the first
  document of that user that is not revoked. The filter does not mention the
  \<^verbatim>\<open>token\<close> field. An \<^verbatim>\<open>undefined\<close> id matches no document.\<close>

primrec findIndex :: "('a \<Rightarrow> bool) \<Rightarrow> 'a list \<Rightarrow> nat option" where
  "findIndex P [] = None"
| "findIndex P (x # xs) = (if P x then Some 0 else map_option Suc (findIndex P xs))"

definition findOne :: "objectId option \<Rightarrow> refreshTokenDoc list \<Rightarrow> nat option" where
  "findOne uid db = findIndex (\<lambda>d. Some (user d) = uid \<and> \<not> isRevoked d) db"

text \<open>\<^verbatim>\<open>storedToken.isRevoked = true; await storedToken.save()\<close>, for the document at
  the position \<^verbatim>\<open>findOne\<close> returned, which lies within the collection.\<close>

definition revokeAt :: "nat \<Rightarrow> refreshTokenDoc list \<Rightarrow> refreshTokenDoc list" where
  "revokeAt i db = db[i := (db ! i)\<lparr>isRevoked := True\<rparr>]"

text \<open>
  \<^verbatim>\<open>refreshToken(req, res, next)\<close>, the handler of \<^verbatim>\<open>POST /api/auth/refresh\<close>. Every
  failure ends in \<^verbatim>\<open>next(new AppError())\<close>, the constructor called without arguments:
  the missing token, the \<^verbatim>\<open>catch\<close> around verification and the database calls, the
  document not found, and the document found expired.
\<close>

definition refreshToken ::
  "config \<Rightarrow> world \<Rightarrow> request \<Rightarrow> refreshTokenDoc list \<Rightarrow> refreshTokenDoc list \<times> outcome" where
  "refreshToken cfg w req db =
     (case orToken (cookies_refreshToken req) (body_refreshToken req) of
        None \<Rightarrow> (db, Next (AppError None None None))
      | Some refreshTokenValue \<Rightarrow>
          if \<not> truthy refreshTokenValue then (db, Next (AppError None None None))
          else
          (case jwt_verify refreshTokenValue (JWT_REFRESH_SECRET cfg) (now w) of
             Inl e \<Rightarrow> (db, Next (AppError None None None))
           | Inr decoded \<Rightarrow>
               (case findOneFault w of
                  Some e \<Rightarrow> (db, Next (AppError None None None))
                | None \<Rightarrow>
                    (case (claimsId (payloadClaims decoded),
                           findOne (claimsId (payloadClaims decoded)) db) of
                       (Some decoded_id, Some i) \<Rightarrow>
                         if expiresAt (db ! i) < now w then
                           (case saveFault w of
                              Some e \<Rightarrow> (db, Next (AppError None None None))
                            | None \<Rightarrow> (revokeAt i db, Next (AppError None None None)))
                         else
                           (let newRefreshToken = generateRefreshToken cfg w decoded_id
                            in case saveFault w of
                                 Some e \<Rightarrow> (db, Next (AppError None None None))
                               | None \<Rightarrow>
                                   (let accessToken = generateAccessToken cfg w decoded_id
                                    in case createFault w of
                                         Some e \<Rightarrow> (revokeAt i db, Next (AppError None None None))
                                       | None \<Rightarrow>
                                           (revokeAt i db @
                                              [newRefreshTokenDoc cfg w req decoded_id newRefreshToken],
                                            Sent \<lparr> resStatus = 200,
                                                   resCookies =
                                                     [(''token'', accessToken, accessCookieOptions cfg w)],
                                                   resBody = RefreshBody True
                                                     ''Token refreshed successfully'' accessToken \<rparr>)))
                     | _ \<Rightarrow> (db, Next (AppError None None None))))))"

section \<open>The authentication middleware (middleware/auth.js)\<close>

text \<open>\<^verbatim>\<open>User.findById(id).select('-password')\<close>\<close>

definition findById :: "objectId option \<Rightarrow> userDoc list \<Rightarrow> userDoc option" where
  "findById uid users = find (\<lambda>u. Some (user_id u) = uid) users"

text \<open>What \<^verbatim>\<open>authenticate\<close> does with a request: it answers 401 itself (message and,
  for the two token errors, a code), or it attaches the user and calls \<^verbatim>\<open>next()\<close>.\<close>

datatype authResult = Rejected nat string "string option" | Attached userDoc objectId

definition authenticate :: "config \<Rightarrow> world \<Rightarrow> request \<Rightarrow> userDoc list \<Rightarrow> authResult" where
  "authenticate cfg w req users =
     (case cookies_token req of
        None \<Rightarrow> Rejected 401 ''Authentication required. Please login.'' None
      | Some t \<Rightarrow>
          if \<not> truthy t then Rejected 401 ''Authentication required. Please login.'' None
          else
          (case jwt_verify t (JWT_SECRET cfg) (now w) of
             Inl TokenExpiredError \<Rightarrow>
               Rejected 401 ''Session expired. Please login again.'' (Some ''TOKEN_EXPIRED'')
           | Inl JsonWebTokenError \<Rightarrow>
               Rejected 401 ''Invalid token. Please login again.'' (Some ''INVALID_TOKEN'')
           | Inr decoded \<Rightarrow>
               (case findByIdFault w of
                  Some e \<Rightarrow>
                    if errName e = ''TokenExpiredError''
                    then Rejected 401 ''Session expired. Please login again.'' (Some ''TOKEN_EXPIRED'')
                    else if errName e = ''JsonWebTokenError''
                    then Rejected 401 ''Invalid token. Please login again.'' (Some ''INVALID_TOKEN'')
                    else Rejected 401 ''Authentication failed. Please login.'' None
                | None \<Rightarrow>
                    (case findById (claimsId (payloadClaims decoded)) users of
                       None \<Rightarrow> Rejected 401 ''User not found. Please login again.'' None
                     | Some u \<Rightarrow> Attached (u\<lparr>password := []\<rparr>) (user_id u)))))"

section \<open>The client's access-token slot and its interceptors (client api service)\<close>

text \<open>
  The body of a response as the interceptors read it, \<^verbatim>\<open>response.data?.data?.accessToken\<close>:
  \<^verbatim>\<open>response.data\<close> may be absent, its \<^verbatim>\<open>data\<close> property may be absent, and so may the
  \<^verbatim>\<open>accessToken\<close> in it, a string where it is present (the \<^verbatim>\<open>AuthResponse\<close> interface).
\<close>

datatype payloadData = PayloadData (data_accessToken: "string option")

datatype responseBody = ResponseBody (body_data: "payloadData option")

text \<open>A request configuration: its \<^verbatim>\<open>url\<close>, the \<^verbatim>\<open>_retry\<close> mark and the
  \<^verbatim>\<open>Authorization\<close> header.\<close>

record clientRequest =
  url :: string
  retry :: bool
  Authorization :: "string option"

text \<open>A rejection reason: the status of \<^verbatim>\<open>error.response\<close>, if there is a response, and
  the message.\<close>

datatype failure = Failure (failureStatus: "nat option") (failureMessage: string)

text \<open>
  The module state of the api service, \<^verbatim>\<open>isRefreshing\<close> and \<^verbatim>\<open>failedQueue\<close>, and the
  \<^verbatim>\<open>accessToken\<close> slot of \<^verbatim>\<open>localStorage\<close>. An entry of \<^verbatim>\<open>failedQueue\<close> is the pair
  \<^verbatim>\<open>{resolve, reject}\<close> of a suspended request; it is represented by the request its
  continuation closes over. \<open>awaiting\<close> is the request whose handler is suspended at
  \<^verbatim>\<open>await axios.post('/auth/refresh')\<close>. The other fields record what the interceptor has
  done: how many times it called the refresh endpoint, the requests it submitted again
  (the calls \<^verbatim>\<open>api(originalRequest)\<close>, with the header they leave with), the promises it
  rejected and with what, and the \<^verbatim>\<open>auth:logout\<close> events it dispatched.
\<close>

record client =
  isRefreshing :: bool
  failedQueue :: "clientRequest list"
  accessTokenSlot :: "string option"
  awaiting :: "clientRequest option"
  refreshCalls :: nat
  resubmitted :: "clientRequest list"
  rejected :: "(clientRequest \<times> failure) list"
  logoutEvents :: nat

definition bearer :: "string \<Rightarrow> string" where
  "bearer t = ''Bearer '' @ t"

text \<open>The request interceptor: it sets the header from the slot when the slot holds a
  truthy value.\<close>

definition requestInterceptor :: "string option \<Rightarrow> clientRequest \<Rightarrow> clientRequest" where
  "requestInterceptor slot config =
     (case slot of
        None \<Rightarrow> config
      | Some t \<Rightarrow> if t \<noteq> [] then config\<lparr>Authorization := Some (bearer t)\<rparr> else config)"

text \<open>The response interceptor's first handler, for a response that succeeded.\<close>

definition responseAccessToken :: "responseBody option \<Rightarrow> string option" where
  "responseAccessToken d =
     (case d of
        None \<Rightarrow> None
      | Some b \<Rightarrow> (case body_data b of None \<Rightarrow> None | Some p \<Rightarrow> data_accessToken p))"

definition onFulfilled :: "responseBody option \<Rightarrow> client \<Rightarrow> client" where
  "onFulfilled response_data c =
     (case responseAccessToken response_data of
        None \<Rightarrow> c
      | Some t \<Rightarrow> if t \<noteq> [] then c\<lparr>accessTokenSlot := Some t\<rparr> else c)"

text \<open>
  The second handler, for a failed request, up to the point where it suspends or returns:
  a 401 for a request not marked \<^verbatim>\<open>_retry\<close> is queued while a refresh is under way, and
  otherwise marks the request, sets \<^verbatim>\<open>isRefreshing\<close> and calls the refresh endpoint;
  every other error is rejected as it came.
\<close>

definition onRejected :: "clientRequest \<Rightarrow> failure \<Rightarrow> client \<Rightarrow> client" where
  "onRejected originalRequest error c =
     (if failureStatus error = Some 401 \<and> \<not> retry originalRequest then
        (if isRefreshing c then c\<lparr>failedQueue := failedQueue c @ [originalRequest]\<rparr>
         else c\<lparr>isRefreshing := True,
                awaiting := Some (originalRequest\<lparr>retry := True\<rparr>),
                refreshCalls := Suc (refreshCalls c)\<rparr>)
      else c\<lparr>rejected := rejected c @ [(originalRequest, error)]\<rparr>)"

text \<open>\<^verbatim>\<open>String(x)\<close> of a string that may be \<^verbatim>\<open>undefined\<close> or \<^verbatim>\<open>null\<close>, as a template
  literal and \<^verbatim>\<open>localStorage.setItem\<close> compute it.\<close>

definition templateString :: "string \<Rightarrow> string option \<Rightarrow> string" where
  "templateString absent x = (case x of None \<Rightarrow> absent | Some s \<Rightarrow> s)"

text \<open>
  \<^verbatim>\<open>processQueue(error, token)\<close>: every queued promise is rejected with the error, or
  resolved with the token, and the queue is emptied. A resolved entry's continuation sets
  its request's header to \<^verbatim>\<open>Bearer ${token}\<close> and calls \<^verbatim>\<open>api(originalRequest)\<close>, which
  passes the request interceptor; the slot is not written between the resolution and that
  call. The parameter \<^verbatim>\<open>token\<close> defaults to \<^verbatim>\<open>null\<close>.
\<close>

definition resubmit :: "string option \<Rightarrow> string \<Rightarrow> clientRequest \<Rightarrow> clientRequest" where
  "resubmit slot t originalRequest =
     requestInterceptor slot (originalRequest\<lparr>Authorization := Some (bearer t)\<rparr>)"

definition processQueue :: "failure option \<Rightarrow> string option \<Rightarrow> client \<Rightarrow> client" where
  "processQueue error tok c =
     (case error of
        Some e \<Rightarrow>
          c\<lparr>rejected := rejected c @ map (\<lambda>prom. (prom, e)) (failedQueue c), failedQueue := []\<rparr>
      | None \<Rightarrow>
          c\<lparr>resubmitted := resubmitted c @
               map (resubmit (accessTokenSlot c) (templateString ''null'' tok)) (failedQueue c),
            failedQueue := []\<rparr>)"

text \<open>The \<^verbatim>\<open>catch\<close> and \<^verbatim>\<open>finally\<close> blocks of the refresh attempt.\<close>

definition refreshFailed :: "failure \<Rightarrow> clientRequest \<Rightarrow> client \<Rightarrow> client" where
  "refreshFailed refreshError originalRequest c =
     (let c1 = processQueue (Some refreshError) None c;
          c2 = c1\<lparr>accessTokenSlot := None, logoutEvents := Suc (logoutEvents c1)\<rparr>
      in c2\<lparr>rejected := rejected c2 @ [(originalRequest, refreshError)],
            isRefreshing := False, awaiting := None\<rparr>)"

text \<open>
  The handler resumed when the refresh call has answered with a success status.
  \<^verbatim>\<open>const { accessToken } = response.data.data\<close> throws a \<^verbatim>\<open>TypeError\<close> when
  \<^verbatim>\<open>response.data\<close> or its \<^verbatim>\<open>data\<close> is absent, which the \<^verbatim>\<open>catch\<close> block receives.
  The request that started the refresh is submitted again before the continuations of the
  queue run.
\<close>

definition refreshAnswered :: "responseBody option \<Rightarrow> client \<Rightarrow> client" where
  "refreshAnswered response_data c =
     (case awaiting c of
        None \<Rightarrow> c
      | Some originalRequest \<Rightarrow>
          (case (case response_data of None \<Rightarrow> None | Some b \<Rightarrow> body_data b) of
             None \<Rightarrow> refreshFailed (Failure None ''TypeError'') originalRequest c
           | Some p \<Rightarrow>
               (let accessToken = data_accessToken p;
                    c1 = c\<lparr>accessTokenSlot := Some (templateString ''undefined'' accessToken)\<rparr>;
                    mine = resubmit (accessTokenSlot c1) (templateString ''undefined'' accessToken)
                             originalRequest;
                    c2 = c1\<lparr>resubmitted := resubmitted c1 @ [mine]\<rparr>;
                    c3 = processQueue None accessToken c2
                in c3\<lparr>isRefreshing := False, awaiting := None\<rparr>)))"

text \<open>The handler resumed when the refresh call has failed.\<close>

definition refreshRejected :: "failure \<Rightarrow> client \<Rightarrow> client" where
  "refreshRejected refreshError c =
     (case awaiting c of
        None \<Rightarrow> c
      | Some originalRequest \<Rightarrow> refreshFailed refreshError originalRequest c)"

text \<open>The event loop runs one handler at a time, to its next suspension: a trace of the
  client is a list of events.\<close>

datatype event =
    ResponseOk "responseBody option"
  | ResponseError clientRequest failure
  | RefreshOk "responseBody option"
  | RefreshError failure

fun step :: "client \<Rightarrow> event \<Rightarrow> client" where
  "step c (ResponseOk d) = onFulfilled d c"
| "step c (ResponseError r e) = onRejected r e c"
| "step c (RefreshOk d) = refreshAnswered d c"
| "step c (RefreshError e) = refreshRejected e c"

definition run :: "client \<Rightarrow> event list \<Rightarrow> client" where
  "run c evs = foldl step c evs"

section \<open>The housekeeping statics of the refresh-token model (models/RefreshToken.js)\<close>

text \<open>\<^verbatim>\<open>deleteMany({ $or: [{ expiresAt: { $lt: now } }, { isRevoked: true }] })\<close> and
  \<^verbatim>\<open>updateMany({ user, isRevoked: false }, { $set: { isRevoked: true } })\<close>: the number of
  documents deleted or modified and the collection afterwards, or the error thrown.\<close>

definition expiredOrRevoked :: "nat \<Rightarrow> refreshTokenDoc \<Rightarrow> bool" where
  "expiredOrRevoked t d = (expiresAt d < t \<or> isRevoked d)"

definition deleteMany :: "world \<Rightarrow> refreshTokenDoc list \<Rightarrow> err + (nat \<times> refreshTokenDoc list)" where
  "deleteMany w db =
     (case deleteManyFault w of
        Some e \<Rightarrow> Inl e
      | None \<Rightarrow> Inr (length (filter (expiredOrRevoked (now w)) db),
                      filter (\<lambda>d. \<not> expiredOrRevoked (now w) d) db))"

definition updateMany :: "world \<Rightarrow> objectId \<Rightarrow> refreshTokenDoc list \<Rightarrow> err + (nat \<times> refreshTokenDoc list)" where
  "updateMany w userId db =
     (case updateManyFault w of
        Some e \<Rightarrow> Inl e
      | None \<Rightarrow> Inr (length (filter (\<lambda>d. user d = userId \<and> \<not> isRevoked d) db),
                      map (\<lambda>d. if user d = userId \<and> \<not> isRevoked d then d\<lparr>isRevoked := True\<rparr> else d) db))"

text \<open>The two statics: the count on success, and 0 from the \<^verbatim>\<open>catch\<close> block.\<close>

definition cleanupExpiredTokens :: "world \<Rightarrow> refreshTokenDoc list \<Rightarrow> nat \<times> refreshTokenDoc list" where
  "cleanupExpiredTokens w db =
     (case deleteMany w db of
        Inr (deletedCount, db') \<Rightarrow> (deletedCount, db')
      | Inl error \<Rightarrow> (0, db))"

definition revokeAllUserTokens :: "world \<Rightarrow> objectId \<Rightarrow> refreshTokenDoc list \<Rightarrow> nat \<times> refreshTokenDoc list" where
  "revokeAllUserTokens w userId db =
     (case updateMany w userId db of
        Inr (modifiedCount, db') \<Rightarrow> (modifiedCount, db')
      | Inl error \<Rightarrow> (0, db))"

section \<open>Example data\<close>

definition exampleConfig :: config where
  "exampleConfig =
     \<lparr> JWT_SECRET = ''access-secret'', JWT_REFRESH_SECRET = ''refresh-secret'',
       JWT_EXPIRE = 900, JWT_REFRESH_EXPIRE = 604800, JWT_EXPIRE_MINUTES = 15,
       isProduction = False \<rparr>"

text \<open>A world in which no database call fails.\<close>

definition quietWorld :: "nat \<Rightarrow> world" where
  "quietWorld t =
     \<lparr> now = t, findOneFault = None, saveFault = None, createFault = None,
       userSaveFault = None, findByIdFault = None, deleteManyFault = None,
       updateManyFault = None \<rparr>"

definition emptyRequest :: request where
  "emptyRequest =
     \<lparr> cookies_token = None, cookies_refreshToken = None, body_refreshToken = None,
       headers_userAgent = None, ip = None, remoteAddress = None \<rparr>"

definition ann :: userDoc where
  "ann = \<lparr> user_id = ''u1'', email = ''a@b.com'', password = ''$2a$12$hash'', name = ''Ann'',
           userCreatedAt = 1000, lastLogin = None \<rparr>"

definition idleClient :: client where
  "idleClient =
     \<lparr> isRefreshing = False, failedQueue = [], accessTokenSlot = Some ''old-token'',
       awaiting = None, refreshCalls = 0, resubmitted = [], rejected = [], logoutEvents = 0 \<rparr>"

definition exampleDoc :: "objectId \<Rightarrow> nat \<Rightarrow> bool \<Rightarrow> refreshTokenDoc" where
  "exampleDoc u e r =
     \<lparr> token = Opaque ''stored'', user = u, expiresAt = e, isRevoked = r, createdAt = 0,
       userAgent = ''Unknown'', ipAddress = ''Unknown'' \<rparr>"

text \<open>An error a database call throws when the connection is lost.\<close>

definition dbError :: err where
  "dbError =
     \<lparr> errName = ''MongoNetworkError'', errMessage = ''connection lost'', errStatusCode = None,
       errCode = None, errStatus = [], isOperational = False, errErrors = [] \<rparr>"

text \<open>
  A session: Ann logs in at 5000 ms with no refresh-token document in the collection.
  \<open>tokenA\<close> is the refresh token \<^verbatim>\<open>login\<close> generates for her, \<open>loginDb\<close> the collection
  after \<^verbatim>\<open>sendTokenResponse\<close>, and \<open>requestA\<close> a refresh request that presents
  \<open>tokenA\<close> in the \<^verbatim>\<open>refreshToken\<close> cookie.
\<close>

definition tokenA :: token where
  "tokenA = generateRefreshToken exampleConfig (quietWorld 5000) ''u1''"

definition loginDb :: "refreshTokenDoc list" where
  "loginDb = fst (sendTokenResponse exampleConfig (quietWorld 5000) ann 200 tokenA emptyRequest [])"

definition requestA :: request where
  "requestA = emptyRequest\<lparr>cookies_refreshToken := Some tokenA\<rparr>"

text \<open>The response \<^verbatim>\<open>errorHandler\<close> sends for an error with no status code, no message and
  no code.\<close>

definition serverError :: response where
  "serverError =
     \<lparr> resStatus = 500, resCookies = [],
       resBody = ErrorBody False ''Internal Server Error'' (CodeStr ''SERVER_ERROR'') \<rparr>"

text \<open>Five requests sent with the expired access token, none of them retried yet: the
  one whose 401 arrives first, and the four others.\<close>

definition firstRequest :: clientRequest where
  "firstRequest = \<lparr> url = ''/expenses'', retry = False, Authorization = Some ''Bearer old-token'' \<rparr>"

definition otherRequests :: "clientRequest list" where
  "otherRequests =
     map (\<lambda>u. \<lparr> url = u, retry = False, Authorization = Some ''Bearer old-token'' \<rparr>)
       [''/expenses/stats'', ''/auth/me'', ''/expenses/trends'', ''/expenses/export'']"

text \<open>The 401 each of them receives, and the failure of the refresh call.\<close>

definition unauthorized :: failure where
  "unauthorized = Failure (Some 401) ''Request failed with status code 401''"

text \<open>The client state is idle when no refresh is under way; then nothing is queued and
  no handler is suspended at the refresh call.\<close>

definition idle :: "client \<Rightarrow> bool" where
  "idle c = (\<not> isRefreshing c \<and> failedQueue c = [] \<and> awaiting c = None)"

text \<open>The events of requests failing with the given errors, in the order of arrival.\<close>

definition failures :: "(clientRequest \<times> failure) list \<Rightarrow> event list" where
  "failures ps = map (\<lambda>p. ResponseError (fst p) (snd p)) ps"

text \<open>Every one of the failures is a 401 for a request not yet retried.\<close>

definition allUnauthorized :: "(clientRequest \<times> failure) list \<Rightarrow> bool" where
  "allUnauthorized ps = list_all (\<lambda>p. failureStatus (snd p) = Some 401 \<and> \<not> retry (fst p)) ps"

definition fiveFailures :: "(clientRequest \<times> failure) list" where
  "fiveFailures = (firstRequest, unauthorized) # map (\<lambda>q. (q, unauthorized)) otherRequests"

definition refreshFailure :: failure where
  "refreshFailure = Failure (Some 500) ''Request failed with status code 500''"

text \<open>The module state is consistent when \<^verbatim>\<open>isRefreshing\<close> is set exactly while a handler
  is suspended at the refresh call, and the queue is empty otherwise.\<close>

definition consistent :: "client \<Rightarrow> bool" where
  "consistent c =
     ((isRefreshing c = (awaiting c \<noteq> None)) \<and> (isRefreshing c \<or> failedQueue c = []))"

section \<open>Properties\<close>

subsection \<open>Signing and verifying\<close>

lemma findById_Some: "findById (Some i) users = Some u \<Longrightarrow> user_id u = i"
  by (auto simp: findById_def find_Some_iff)

text \<open>
  C8. A token signed for a subject with a time to live, verified with the same secret:
  while the clock's second is before \<open>iat + ttl\<close> verification returns the payload of that
  subject, and \<^verbatim>\<open>authenticate\<close>, given the token in the cookie and the subject among the
  users, attaches that subject's id; from \<open>iat + ttl\<close> on verification fails with
  \<^verbatim>\<open>TokenExpiredError\<close>, which \<^verbatim>\<open>authenticate\<close> answers with its own code
  \<^verbatim>\<open>TOKEN_EXPIRED\<close>.
\<close>

theorem codec_roundtrip:
  "(now w div 1000 < issued div 1000 + ttl \<longrightarrow>
      jwt_verify (jwt_sign (IdClaims subjectId) secret ttl issued) secret (now w)
        = Inr (Payload (IdClaims subjectId) (issued div 1000) (issued div 1000 + ttl))
      \<and> (JWT_SECRET cfg = secret \<and> findByIdFault w = None
            \<and> findById (Some subjectId) users = Some u \<longrightarrow>
           authenticate cfg w
             (req\<lparr>cookies_token := Some (jwt_sign (IdClaims subjectId) secret ttl issued)\<rparr>) users
             = Attached (u\<lparr>password := []\<rparr>) subjectId)) \<and>
   (issued div 1000 + ttl \<le> now w div 1000 \<longrightarrow>
      jwt_verify (jwt_sign (IdClaims subjectId) secret ttl issued) secret (now w)
        = Inl TokenExpiredError
      \<and> (JWT_SECRET cfg = secret \<longrightarrow>
           authenticate cfg w
             (req\<lparr>cookies_token := Some (jwt_sign (IdClaims subjectId) secret ttl issued)\<rparr>) users
             = Rejected 401 ''Session expired. Please login again.'' (Some ''TOKEN_EXPIRED'')))"
  by (auto simp: jwt_sign_def authenticate_def Let_def dest: findById_Some)

theorem codec_roundtrip_witness:
  "jwt_verify (jwt_sign (IdClaims ''u1'') ''access-secret'' 900 5000) ''access-secret'' 904999
     = Inr (Payload (IdClaims ''u1'') 5 905) \<and>
   authenticate exampleConfig (quietWorld 904999)
     (emptyRequest\<lparr>cookies_token := Some (jwt_sign (IdClaims ''u1'') ''access-secret'' 900 5000)\<rparr>) [ann]
     = Attached (ann\<lparr>password := []\<rparr>) ''u1'' \<and>
   jwt_verify (jwt_sign (IdClaims ''u1'') ''access-secret'' 900 5000) ''access-secret'' 905000
     = Inl TokenExpiredError \<and>
   authenticate exampleConfig (quietWorld 905000)
     (emptyRequest\<lparr>cookies_token := Some (jwt_sign (IdClaims ''u1'') ''access-secret'' 900 5000)\<rparr>) [ann]
     = Rejected 401 ''Session expired. Please login again.'' (Some ''TOKEN_EXPIRED'')"
  using codec_roundtrip [where w = "quietWorld 904999" and issued = 5000 and ttl = 900
          and subjectId = "''u1''" and secret = "''access-secret''" and cfg = exampleConfig
          and users = "[ann]" and u = ann and req = emptyRequest]
        codec_roundtrip [where w = "quietWorld 905000" and issued = 5000 and ttl = 900
          and subjectId = "''u1''" and secret = "''access-secret''" and cfg = exampleConfig
          and users = "[ann]" and u = ann and req = emptyRequest]
  by (simp add: exampleConfig_def quietWorld_def ann_def findById_def)

lemma filter_none_length: "(\<forall>x\<in>set xs. \<not> P x) \<Longrightarrow> length (filter P xs) = 0"
  by (induction xs) auto

lemma filter_all_id: "(\<forall>x\<in>set xs. \<not> P x) \<Longrightarrow> filter (\<lambda>x. \<not> P x) xs = xs"
  by (induction xs) auto

lemma map_none_id: "(\<forall>x\<in>set xs. \<not> P x) \<Longrightarrow> map (\<lambda>x. if P x then f x else x) xs = xs"
  by (induction xs) auto

subsection \<open>Housekeeping\<close>

text \<open>
  C9. \<^verbatim>\<open>cleanupExpiredTokens\<close> and \<^verbatim>\<open>revokeAllUserTokens\<close> always return a number: the
  count of documents deleted or revoked when the database call succeeds, and 0 when it
  throws. A call that failed and a call that matched no document return the same pair,
  0 and the collection as it was, so the caller cannot tell them apart.
\<close>

theorem housekeeping_swallows_errors:
  "fst (cleanupExpiredTokens w db) =
     (case deleteManyFault w of
        None \<Rightarrow> length (filter (expiredOrRevoked (now w)) db)
      | Some e \<Rightarrow> 0) \<and>
   fst (revokeAllUserTokens w userId db) =
     (case updateManyFault w of
        None \<Rightarrow> length (filter (\<lambda>d. user d = userId \<and> \<not> isRevoked d) db)
      | Some e \<Rightarrow> 0) \<and>
   (deleteManyFault w \<noteq> None \<longrightarrow> cleanupExpiredTokens w db = (0, db)) \<and>
   (deleteManyFault w = None \<and> (\<forall>d\<in>set db. \<not> expiredOrRevoked (now w) d) \<longrightarrow>
      cleanupExpiredTokens w db = (0, db)) \<and>
   (updateManyFault w \<noteq> None \<longrightarrow> revokeAllUserTokens w userId db = (0, db)) \<and>
   (updateManyFault w = None \<and> (\<forall>d\<in>set db. \<not> (user d = userId \<and> \<not> isRevoked d)) \<longrightarrow>
      revokeAllUserTokens w userId db = (0, db))"
proof -
  have a: "fst (cleanupExpiredTokens w db) =
     (case deleteManyFault w of
        None \<Rightarrow> length (filter (expiredOrRevoked (now w)) db)
      | Some e \<Rightarrow> 0)"
    by (simp add: cleanupExpiredTokens_def deleteMany_def split: option.splits)
  have b: "fst (revokeAllUserTokens w userId db) =
     (case updateManyFault w of
        None \<Rightarrow> length (filter (\<lambda>d. user d = userId \<and> \<not> isRevoked d) db)
      | Some e \<Rightarrow> 0)"
    by (simp add: revokeAllUserTokens_def updateMany_def split: option.splits)
  have c: "deleteManyFault w \<noteq> None \<longrightarrow> cleanupExpiredTokens w db = (0, db)"
    by (auto simp: cleanupExpiredTokens_def deleteMany_def)
  have d: "deleteManyFault w = None \<and> (\<forall>d\<in>set db. \<not> expiredOrRevoked (now w) d) \<longrightarrow>
      cleanupExpiredTokens w db = (0, db)"
    by (simp add: cleanupExpiredTokens_def deleteMany_def filter_none_length filter_all_id)
  have e: "updateManyFault w \<noteq> None \<longrightarrow> revokeAllUserTokens w userId db = (0, db)"
    by (auto simp: revokeAllUserTokens_def updateMany_def)
  have f: "updateManyFault w = None \<and> (\<forall>d\<in>set db. \<not> (user d = userId \<and> \<not> isRevoked d)) \<longrightarrow>
      revokeAllUserTokens w userId db = (0, db)"
  proof
    assume h: "updateManyFault w = None \<and> (\<forall>d\<in>set db. \<not> (user d = userId \<and> \<not> isRevoked d))"
    then have "length (filter (\<lambda>d. user d = userId \<and> \<not> isRevoked d) db) = 0"
      using filter_none_length [of db "\<lambda>d. user d = userId \<and> \<not> isRevoked d"] by blast
    moreover from h have "map (\<lambda>d. if user d = userId \<and> \<not> isRevoked d then d\<lparr>isRevoked := True\<rparr> else d) db = db"
      using map_none_id [of db "\<lambda>d. user d = userId \<and> \<not> isRevoked d"] by blast
    ultimately show "revokeAllUserTokens w userId db = (0, db)"
      using h by (simp add: revokeAllUserTokens_def updateMany_def)
  qed
  from a b c d e f show ?thesis by blast
qed

theorem housekeeping_swallows_errors_witness:
  "cleanupExpiredTokens ((quietWorld 5000)\<lparr>deleteManyFault := Some dbError\<rparr>)
       [exampleDoc ''u1'' 1000 False, exampleDoc ''u1'' 9000 True, exampleDoc ''u2'' 9000 False]
     = (0, [exampleDoc ''u1'' 1000 False, exampleDoc ''u1'' 9000 True, exampleDoc ''u2'' 9000 False]) \<and>
   cleanupExpiredTokens (quietWorld 5000) [exampleDoc ''u2'' 9000 False]
     = (0, [exampleDoc ''u2'' 9000 False]) \<and>
   fst (cleanupExpiredTokens (quietWorld 5000)
       [exampleDoc ''u1'' 1000 False, exampleDoc ''u1'' 9000 True, exampleDoc ''u2'' 9000 False]) = 2 \<and>
   revokeAllUserTokens ((quietWorld 5000)\<lparr>updateManyFault := Some dbError\<rparr>) ''u1''
       [exampleDoc ''u1'' 1000 False, exampleDoc ''u1'' 9000 True]
     = (0, [exampleDoc ''u1'' 1000 False, exampleDoc ''u1'' 9000 True]) \<and>
   revokeAllUserTokens (quietWorld 5000) ''u1'' [exampleDoc ''u1'' 9000 True, exampleDoc ''u2'' 9000 False]
     = (0, [exampleDoc ''u1'' 9000 True, exampleDoc ''u2'' 9000 False]) \<and>
   fst (revokeAllUserTokens (quietWorld 5000) ''u1''
       [exampleDoc ''u1'' 1000 False, exampleDoc ''u1'' 9000 True]) = 1"
  using housekeeping_swallows_errors [where w = "(quietWorld 5000)\<lparr>deleteManyFault := Some dbError\<rparr>"
          and db = "[exampleDoc ''u1'' 1000 False, exampleDoc ''u1'' 9000 True, exampleDoc ''u2'' 9000 False]"]
        housekeeping_swallows_errors [where w = "quietWorld 5000" and db = "[exampleDoc ''u2'' 9000 False]"]
        housekeeping_swallows_errors [where w = "quietWorld 5000"
          and db = "[exampleDoc ''u1'' 1000 False, exampleDoc ''u1'' 9000 True, exampleDoc ''u2'' 9000 False]"]
        housekeeping_swallows_errors [where w = "(quietWorld 5000)\<lparr>updateManyFault := Some dbError\<rparr>"
          and userId = "''u1''" and db = "[exampleDoc ''u1'' 1000 False, exampleDoc ''u1'' 9000 True]"]
        housekeeping_swallows_errors [where w = "quietWorld 5000"
          and userId = "''u1''" and db = "[exampleDoc ''u1'' 9000 True, exampleDoc ''u2'' 9000 False]"]
        housekeeping_swallows_errors [where w = "quietWorld 5000"
          and userId = "''u1''" and db = "[exampleDoc ''u1'' 1000 False, exampleDoc ''u1'' 9000 True]"]
  by (simp add: quietWorld_def exampleDoc_def expiredOrRevoked_def)

subsection \<open>The client's token slot\<close>

text \<open>
  The claim C10 as stated fails for a body whose \<^verbatim>\<open>data.data.accessToken\<close> is the empty
  string: the field is there, and the slot keeps its old value.
\<close>

theorem token_slot_counterexample:
  "responseAccessToken (Some (ResponseBody (Some (PayloadData (Some ''''))))) = Some '''' \<and>
   accessTokenSlot (onFulfilled (Some (ResponseBody (Some (PayloadData (Some ''''))))) idleClient)
     = Some ''old-token'' \<and>
   accessTokenSlot (onFulfilled (Some (ResponseBody (Some (PayloadData (Some ''''))))) idleClient)
     \<noteq> Some ''''"
  by (simp add: responseAccessToken_def onFulfilled_def idleClient_def)

text \<open>
  C10, amended. For a successful response passing the response interceptor: when
  \<^verbatim>\<open>data.data.accessToken\<close> is a non-empty string, the slot is replaced with exactly that
  string and nothing else of the client state changes; when the field is absent, at any of
  the three levels, or is the empty string, the client state is unchanged.
\<close>

theorem token_slot_frame:
  "(t \<noteq> [] \<longrightarrow>
      onFulfilled (Some (ResponseBody (Some (PayloadData (Some t))))) c = c\<lparr>accessTokenSlot := Some t\<rparr>
      \<and> accessTokenSlot (onFulfilled (Some (ResponseBody (Some (PayloadData (Some t))))) c) = Some t) \<and>
   (d = None \<or> d = Some (ResponseBody None) \<or> d = Some (ResponseBody (Some (PayloadData None)))
      \<or> d = Some (ResponseBody (Some (PayloadData (Some []))))
    \<longrightarrow> onFulfilled d c = c)"
  by (auto simp: responseAccessToken_def onFulfilled_def)

theorem token_slot_frame_witness:
  "onFulfilled (Some (ResponseBody (Some (PayloadData (Some ''new-token''))))) idleClient
     = idleClient\<lparr>accessTokenSlot := Some ''new-token''\<rparr> \<and>
   accessTokenSlot (onFulfilled (Some (ResponseBody (Some (PayloadData (Some ''new-token''))))) idleClient)
     = Some ''new-token'' \<and>
   onFulfilled (Some (ResponseBody None)) idleClient = idleClient \<and>
   onFulfilled (Some (ResponseBody (Some (PayloadData (Some ''''))))) idleClient = idleClient"
  using token_slot_frame [where t = "''new-token''" and c = idleClient and d = "Some (ResponseBody None)"]
        token_slot_frame [where t = "''new-token''" and c = idleClient
          and d = "Some (ResponseBody (Some (PayloadData (Some ''''))))"]
  by simp

subsection \<open>The refresh endpoint and issuance\<close>

lemmas example_defs = tokenA_def loginDb_def requestA_def exampleConfig_def quietWorld_def
  emptyRequest_def ann_def exampleDoc_def dbError_def serverError_def

lemmas server_defs = generateRefreshToken_def generateAccessToken_def jwt_sign_def Let_def
  sendTokenResponse_def refreshToken_def newRefreshTokenDoc_def hashedToken_def
  accessCookieOptions_def reqUserAgent_def reqIpAddress_def orDefault_def orString_def
  orToken_def findOne_def revokeAt_def sevenDaysSeconds_def sevenDaysMillis_def
  getPublicProfile_def AppError_def errorHandler_def truthyCode_def

lemma errorHandler_AppError_empty: "errorHandler (AppError None None None) = serverError"
  by (simp add: errorHandler_def AppError_def serverError_def)

lemma refreshToken_outcome:
  "(\<exists>r. snd (refreshToken cfg w req db) = Sent r)
   \<or> snd (refreshToken cfg w req db) = Next (AppError None None None)"
  by (simp add: refreshToken_def Let_def split: option.split sum.split prod.split)

lemma errorHandler_cookies: "resCookies (errorHandler e) = []"
  by (simp add: errorHandler_def Let_def)

lemma errorHandler_body: "\<exists>m c. resBody (errorHandler e) = ErrorBody False m c"
  by (simp add: errorHandler_def Let_def)

text \<open>
  C1. Ann's refresh token \<open>tokenA\<close> is presented at 60000 ms and accepted: the login
  document is revoked, a successor is stored, status 200. The same \<open>tokenA\<close> presented
  again at 70000 ms is accepted again, status 200 with a fresh access token: the lookup
  is by user and finds the successor's document.
\<close>

theorem rotation_accepts_reused_token:
  "snd (refreshToken exampleConfig (quietWorld 60000) requestA loginDb) =
     Sent \<lparr> resStatus = 200,
            resCookies = [(''token'', generateAccessToken exampleConfig (quietWorld 60000) ''u1'',
                           accessCookieOptions exampleConfig (quietWorld 60000))],
            resBody = RefreshBody True ''Token refreshed successfully''
                        (generateAccessToken exampleConfig (quietWorld 60000) ''u1'') \<rparr> \<and>
   snd (refreshToken exampleConfig (quietWorld 70000) requestA
          (fst (refreshToken exampleConfig (quietWorld 60000) requestA loginDb))) =
     Sent \<lparr> resStatus = 200,
            resCookies = [(''token'', generateAccessToken exampleConfig (quietWorld 70000) ''u1'',
                           accessCookieOptions exampleConfig (quietWorld 70000))],
            resBody = RefreshBody True ''Token refreshed successfully''
                        (generateAccessToken exampleConfig (quietWorld 70000) ''u1'') \<rparr> \<and>
   map isRevoked (fst (refreshToken exampleConfig (quietWorld 70000) requestA
          (fst (refreshToken exampleConfig (quietWorld 60000) requestA loginDb)))) =
     [True, True, False]"
  by (simp add: example_defs server_defs)

text \<open>
  C2. No response of \<^verbatim>\<open>sendTokenResponse\<close> and none of the refresh endpoint sets a
  cookie named \<^verbatim>\<open>refreshToken\<close>. At Ann's login the response carries the access token,
  in the cookie \<^verbatim>\<open>token\<close> and in the body, and nothing else; the refresh token is not
  the access token; and a refresh request that brings the cookie the login set, and an
  empty body, is answered as a request without refresh token.
\<close>

theorem refresh_credential_not_delivered:
  "''refreshToken'' \<notin> fst ` set (resCookies (asyncHandler (snd (snd
       (sendTokenResponse cfg w u statusCode refreshTokenArg req db))))) \<and>
   ''refreshToken'' \<notin> fst ` set (resCookies (asyncHandler (snd (refreshToken cfg w req db)))) \<and>
   snd (snd (sendTokenResponse exampleConfig (quietWorld 5000) ann 200 tokenA emptyRequest [])) =
     Sent \<lparr> resStatus = 200,
            resCookies = [(''token'', generateAccessToken exampleConfig (quietWorld 5000) ''u1'',
                           accessCookieOptions exampleConfig (quietWorld 5000))],
            resBody = AuthBody True ''Authentication successful''
                        (getPublicProfile (ann\<lparr>lastLogin := Some 5000\<rparr>))
                        (generateAccessToken exampleConfig (quietWorld 5000) ''u1'') \<rparr> \<and>
   tokenA \<noteq> generateAccessToken exampleConfig (quietWorld 5000) ''u1'' \<and>
   refreshToken exampleConfig (quietWorld 60000)
       (emptyRequest\<lparr>cookies_token := Some (generateAccessToken exampleConfig (quietWorld 5000) ''u1'')\<rparr>)
       loginDb
     = (loginDb, Next (AppError None None None))"
proof -
  have a: "''refreshToken'' \<notin> fst ` set (resCookies (asyncHandler (snd (snd
       (sendTokenResponse cfg w u statusCode refreshTokenArg req db)))))"
    by (simp add: sendTokenResponse_def Let_def errorHandler_cookies split: option.split)
  have b: "''refreshToken'' \<notin> fst ` set (resCookies (asyncHandler (snd (refreshToken cfg w req db))))"
    using refreshToken_outcome [of cfg w req db]
    by (auto simp: errorHandler_cookies refreshToken_def Let_def
             split: option.splits sum.splits prod.splits if_splits)
  have c: "snd (snd (sendTokenResponse exampleConfig (quietWorld 5000) ann 200 tokenA emptyRequest [])) =
     Sent \<lparr> resStatus = 200,
            resCookies = [(''token'', generateAccessToken exampleConfig (quietWorld 5000) ''u1'',
                           accessCookieOptions exampleConfig (quietWorld 5000))],
            resBody = AuthBody True ''Authentication successful''
                        (getPublicProfile (ann\<lparr>lastLogin := Some 5000\<rparr>))
                        (generateAccessToken exampleConfig (quietWorld 5000) ''u1'') \<rparr>"
    by (simp add: example_defs server_defs)
  have d: "tokenA \<noteq> generateAccessToken exampleConfig (quietWorld 5000) ''u1''"
    by (simp add: example_defs server_defs)
  have e: "refreshToken exampleConfig (quietWorld 60000)
       (emptyRequest\<lparr>cookies_token := Some (generateAccessToken exampleConfig (quietWorld 5000) ''u1'')\<rparr>)
       loginDb
     = (loginDb, Next (AppError None None None))"
    by (simp add: refreshToken_def orToken_def emptyRequest_def)
  from a b c d e show ?thesis by blast
qed

text \<open>
  C4. Every failure of the refresh endpoint passes the same error, \<^verbatim>\<open>new AppError()\<close>,
  to the error handler, which answers it with status 500 and the code
  \<^verbatim>\<open>SERVER_ERROR\<close>: for a request without token, for a malformed token, for a token whose
  user has no document or only a revoked one, and for a document found expired.
\<close>

theorem refresh_failures_share_one_code:
  "((\<exists>r. snd (refreshToken cfg w req db) = Sent r)
     \<or> snd (refreshToken cfg w req db) = Next (AppError None None None)) \<and>
   asyncHandler (Next (AppError None None None)) = serverError \<and>
   asyncHandler (snd (refreshToken exampleConfig (quietWorld 60000) emptyRequest loginDb))
     = serverError \<and>
   asyncHandler (snd (refreshToken exampleConfig (quietWorld 60000)
       (emptyRequest\<lparr>body_refreshToken := Some (Opaque ''garbage'')\<rparr>) loginDb))
     = serverError \<and>
   asyncHandler (snd (refreshToken exampleConfig (quietWorld 60000) requestA [])) = serverError \<and>
   asyncHandler (snd (refreshToken exampleConfig (quietWorld 60000) requestA
       [exampleDoc ''u1'' 700000 True])) = serverError \<and>
   asyncHandler (snd (refreshToken exampleConfig (quietWorld 60000) requestA
       [exampleDoc ''u1'' 1000 False])) = serverError \<and>
   serverError =
     \<lparr> resStatus = 500, resCookies = [],
       resBody = ErrorBody False ''Internal Server Error'' (CodeStr ''SERVER_ERROR'') \<rparr>"
proof -
  have a: "asyncHandler (Next (AppError None None None)) = serverError"
    by (simp add: errorHandler_AppError_empty)
  have b: "asyncHandler (snd (refreshToken exampleConfig (quietWorld 60000) emptyRequest loginDb))
     = serverError"
    by (simp add: refreshToken_def orToken_def emptyRequest_def errorHandler_AppError_empty)
  have c: "asyncHandler (snd (refreshToken exampleConfig (quietWorld 60000)
       (emptyRequest\<lparr>body_refreshToken := Some (Opaque ''garbage'')\<rparr>) loginDb))
     = serverError"
    by (simp add: refreshToken_def orToken_def emptyRequest_def errorHandler_AppError_empty)
  have d: "asyncHandler (snd (refreshToken exampleConfig (quietWorld 60000) requestA [])) = serverError"
    by (simp add: example_defs server_defs)
  have e: "asyncHandler (snd (refreshToken exampleConfig (quietWorld 60000) requestA
       [exampleDoc ''u1'' 700000 True])) = serverError"
    by (simp add: example_defs server_defs)
  have f: "asyncHandler (snd (refreshToken exampleConfig (quietWorld 60000) requestA
       [exampleDoc ''u1'' 1000 False])) = serverError"
    by (simp add: example_defs server_defs)
  from a b c d e f refreshToken_outcome [of cfg w req db] show ?thesis
    by (simp add: serverError_def)
qed

text \<open>
  C6. The \<^verbatim>\<open>token\<close> field of every document the controller builds is a signed token
  whose payload holds the refresh token itself: decoding it, which needs no secret,
  returns the raw token. So it is for the document Ann's login stores and for the one
  the rotation stores.
\<close>

theorem stored_token_reveals_raw_token:
  "map_option payloadClaims (jwt_decode (token (newRefreshTokenDoc cfg w req userId raw)))
     = Some (TokenClaims raw) \<and>
   map (\<lambda>d. map_option payloadClaims (jwt_decode (token d))) loginDb = [Some (TokenClaims tokenA)] \<and>
   map (\<lambda>d. map_option payloadClaims (jwt_decode (token d)))
       (fst (refreshToken exampleConfig (quietWorld 60000) requestA loginDb))
     = [Some (TokenClaims tokenA),
        Some (TokenClaims (generateRefreshToken exampleConfig (quietWorld 60000) ''u1''))]"
proof -
  have a: "map_option payloadClaims (jwt_decode (token (newRefreshTokenDoc cfg w req userId raw)))
     = Some (TokenClaims raw)"
    by (simp add: newRefreshTokenDoc_def hashedToken_def jwt_sign_def Let_def)
  have b: "map (\<lambda>d. map_option payloadClaims (jwt_decode (token d))) loginDb
     = [Some (TokenClaims tokenA)]"
    by (simp add: example_defs server_defs)
  have c: "map (\<lambda>d. map_option payloadClaims (jwt_decode (token d)))
       (fst (refreshToken exampleConfig (quietWorld 60000) requestA loginDb))
     = [Some (TokenClaims tokenA),
        Some (TokenClaims (generateRefreshToken exampleConfig (quietWorld 60000) ''u1''))]"
    by (simp add: example_defs server_defs)
  from a b c show ?thesis by blast
qed

lemma findIndex_Some: "findIndex P xs = Some i \<Longrightarrow> i < length xs \<and> P (xs ! i)"
proof (induction xs arbitrary: i)
  case Nil
  then show ?case by simp
next
  case (Cons x xs)
  then show ?case by (cases "P x") (auto simp: nth_Cons')
qed

lemma findOne_Some:
  "findOne (Some uid) db = Some i \<Longrightarrow> i < length db \<and> user (db ! i) = uid \<and> \<not> isRevoked (db ! i)"
  by (auto simp: findOne_def dest: findIndex_Some)

lemma jwt_verify_truthy: "jwt_verify tok secret t = Inr p \<Longrightarrow> truthy tok"
  by (cases tok) auto

text \<open>
  The claim C5 as stated fails when \<^verbatim>\<open>RefreshToken.create\<close> throws during a rotation: the
  handler has already saved the revocation, so Ann's only document is left revoked, no
  successor is stored, and the request fails.
\<close>

theorem rotation_not_atomic_counterexample:
  "refreshToken exampleConfig ((quietWorld 60000)\<lparr>createFault := Some dbError\<rparr>) requestA loginDb
     = (revokeAt 0 loginDb, Next (AppError None None None)) \<and>
   map isRevoked loginDb = [False] \<and>
   map isRevoked (revokeAt 0 loginDb) = [True]"
  by (simp add: example_defs server_defs)

text \<open>
  C5, amended. A rotation is two writes, the revocation of the found document and then
  the creation of its successor, with no rollback. For a request that reaches the
  rotation (its token verifies, the lookup finds document \<open>i\<close> of the token's user, and
  that document is not expired): when saving the revocation throws, the collection is
  unchanged and the request fails; when the save succeeds and the creation throws, the
  request fails and the collection is left with document \<open>i\<close> revoked and no successor;
  when both succeed, document \<open>i\<close> is revoked, one unrevoked successor is appended, and
  the answer is 200.
\<close>

theorem rotation_two_writes:
  "orToken (cookies_refreshToken req) (body_refreshToken req) = Some tok \<and>
   jwt_verify tok (JWT_REFRESH_SECRET cfg) (now w) = Inr decoded \<and>
   findOneFault w = None \<and>
   claimsId (payloadClaims decoded) = Some uid \<and>
   findOne (Some uid) db = Some i \<and>
   \<not> expiresAt (db ! i) < now w
   \<longrightarrow>
   (saveFault w \<noteq> None \<longrightarrow>
      refreshToken cfg w req db = (db, Next (AppError None None None))) \<and>
   (saveFault w = None \<and> createFault w \<noteq> None \<longrightarrow>
      refreshToken cfg w req db = (revokeAt i db, Next (AppError None None None))
      \<and> length (revokeAt i db) = length db
      \<and> isRevoked (revokeAt i db ! i)) \<and>
   (saveFault w = None \<and> createFault w = None \<longrightarrow>
      fst (refreshToken cfg w req db)
        = revokeAt i db @ [newRefreshTokenDoc cfg w req uid (generateRefreshToken cfg w uid)]
      \<and> isRevoked (fst (refreshToken cfg w req db) ! i)
      \<and> \<not> isRevoked (last (fst (refreshToken cfg w req db)))
      \<and> (\<exists>r. snd (refreshToken cfg w req db) = Sent r \<and> resStatus r = 200))"
proof (intro impI, elim conjE)
  assume tok: "orToken (cookies_refreshToken req) (body_refreshToken req) = Some tok"
    and ver: "jwt_verify tok (JWT_REFRESH_SECRET cfg) (now w) = Inr decoded"
    and ff: "findOneFault w = None"
    and cid: "claimsId (payloadClaims decoded) = Some uid"
    and fo: "findOne (Some uid) db = Some i"
    and ne: "\<not> expiresAt (db ! i) < now w"
  have tr: "truthy tok" using ver by (rule jwt_verify_truthy)
  have il: "i < length db" using fo by (simp add: findOne_Some)
  have s: "saveFault w \<noteq> None \<longrightarrow>
      refreshToken cfg w req db = (db, Next (AppError None None None))"
    using tok ver ff cid fo ne tr by (auto simp: refreshToken_def Let_def)
  have c: "saveFault w = None \<and> createFault w \<noteq> None \<longrightarrow>
      refreshToken cfg w req db = (revokeAt i db, Next (AppError None None None))"
    using tok ver ff cid fo ne tr by (auto simp: refreshToken_def Let_def)
  have r: "length (revokeAt i db) = length db \<and> isRevoked (revokeAt i db ! i)"
    using il by (simp add: revokeAt_def)
  have ok: "saveFault w = None \<and> createFault w = None \<longrightarrow>
      refreshToken cfg w req db
        = (revokeAt i db @ [newRefreshTokenDoc cfg w req uid (generateRefreshToken cfg w uid)],
           Sent \<lparr> resStatus = 200,
                  resCookies = [(''token'', generateAccessToken cfg w uid, accessCookieOptions cfg w)],
                  resBody = RefreshBody True ''Token refreshed successfully''
                              (generateAccessToken cfg w uid) \<rparr>)"
    using tok ver ff cid fo ne tr by (auto simp: refreshToken_def Let_def)
  have nth: "(revokeAt i db @ [newRefreshTokenDoc cfg w req uid (generateRefreshToken cfg w uid)]) ! i
               = revokeAt i db ! i"
    using il r by (simp add: nth_append)
  have lst: "\<not> isRevoked (newRefreshTokenDoc cfg w req uid (generateRefreshToken cfg w uid))"
    by (simp add: newRefreshTokenDoc_def)
  show "(saveFault w \<noteq> None \<longrightarrow>
      refreshToken cfg w req db = (db, Next (AppError None None None))) \<and>
   (saveFault w = None \<and> createFault w \<noteq> None \<longrightarrow>
      refreshToken cfg w req db = (revokeAt i db, Next (AppError None None None))
      \<and> length (revokeAt i db) = length db
      \<and> isRevoked (revokeAt i db ! i)) \<and>
   (saveFault w = None \<and> createFault w = None \<longrightarrow>
      fst (refreshToken cfg w req db)
        = revokeAt i db @ [newRefreshTokenDoc cfg w req uid (generateRefreshToken cfg w uid)]
      \<and> isRevoked (fst (refreshToken cfg w req db) ! i)
      \<and> \<not> isRevoked (last (fst (refreshToken cfg w req db)))
      \<and> (\<exists>r. snd (refreshToken cfg w req db) = Sent r \<and> resStatus r = 200))"
    using s c r ok nth lst by simp
qed

theorem rotation_two_writes_witness:
  "refreshToken exampleConfig ((quietWorld 60000)\<lparr>saveFault := Some dbError\<rparr>) requestA loginDb
     = (loginDb, Next (AppError None None None)) \<and>
   refreshToken exampleConfig ((quietWorld 60000)\<lparr>createFault := Some dbError\<rparr>) requestA loginDb
     = (revokeAt 0 loginDb, Next (AppError None None None)) \<and>
   fst (refreshToken exampleConfig (quietWorld 60000) requestA loginDb)
     = revokeAt 0 loginDb @ [newRefreshTokenDoc exampleConfig (quietWorld 60000) requestA ''u1''
                               (generateRefreshToken exampleConfig (quietWorld 60000) ''u1'')] \<and>
   (\<exists>r. snd (refreshToken exampleConfig (quietWorld 60000) requestA loginDb) = Sent r
        \<and> resStatus r = 200)"
proof -
  have h: "\<And>w. now w = 60000 \<Longrightarrow> findOneFault w = None \<Longrightarrow>
     orToken (cookies_refreshToken requestA) (body_refreshToken requestA) = Some tokenA \<and>
     jwt_verify tokenA (JWT_REFRESH_SECRET exampleConfig) (now w)
       = Inr (Payload (IdClaims ''u1'') 5 604805) \<and>
     findOneFault w = None \<and>
     claimsId (payloadClaims (Payload (IdClaims ''u1'') 5 604805)) = Some ''u1'' \<and>
     findOne (Some ''u1'') loginDb = Some 0 \<and>
     \<not> expiresAt (loginDb ! 0) < now w"
    by (simp add: example_defs server_defs)
  have w1: "now ((quietWorld 60000)\<lparr>saveFault := Some dbError\<rparr>) = 60000
            \<and> findOneFault ((quietWorld 60000)\<lparr>saveFault := Some dbError\<rparr>) = None
            \<and> saveFault ((quietWorld 60000)\<lparr>saveFault := Some dbError\<rparr>) \<noteq> None"
    by (simp add: quietWorld_def)
  have w2: "now ((quietWorld 60000)\<lparr>createFault := Some dbError\<rparr>) = 60000
            \<and> findOneFault ((quietWorld 60000)\<lparr>createFault := Some dbError\<rparr>) = None
            \<and> saveFault ((quietWorld 60000)\<lparr>createFault := Some dbError\<rparr>) = None
            \<and> createFault ((quietWorld 60000)\<lparr>createFault := Some dbError\<rparr>) \<noteq> None"
    by (simp add: quietWorld_def)
  have w3: "now (quietWorld 60000) = 60000 \<and> findOneFault (quietWorld 60000) = None
            \<and> saveFault (quietWorld 60000) = None \<and> createFault (quietWorld 60000) = None"
    by (simp add: quietWorld_def)
  show ?thesis
    using rotation_two_writes [where cfg = exampleConfig and req = requestA and db = loginDb
            and tok = tokenA and decoded = "Payload (IdClaims ''u1'') 5 604805" and uid = "''u1''"
            and i = 0 and w = "(quietWorld 60000)\<lparr>saveFault := Some dbError\<rparr>"]
          rotation_two_writes [where cfg = exampleConfig and req = requestA and db = loginDb
            and tok = tokenA and decoded = "Payload (IdClaims ''u1'') 5 604805" and uid = "''u1''"
            and i = 0 and w = "(quietWorld 60000)\<lparr>createFault := Some dbError\<rparr>"]
          rotation_two_writes [where cfg = exampleConfig and req = requestA and db = loginDb
            and tok = tokenA and decoded = "Payload (IdClaims ''u1'') 5 604805" and uid = "''u1''"
            and i = 0 and w = "quietWorld 60000"]
          h [of "(quietWorld 60000)\<lparr>saveFault := Some dbError\<rparr>"]
          h [of "(quietWorld 60000)\<lparr>createFault := Some dbError\<rparr>"]
          h [of "quietWorld 60000"] w1 w2 w3
    by auto
qed

text \<open>
  The claim C7 as stated fails when \<^verbatim>\<open>user.save\<close> throws at Ann's login: the call is
  outside any \<^verbatim>\<open>try\<close>, the handler's promise rejects, and the caller receives the
  error handler's answer, status 500, instead of the access token.
\<close>

theorem last_login_failure_counterexample:
  "snd (snd (sendTokenResponse exampleConfig ((quietWorld 5000)\<lparr>userSaveFault := Some dbError\<rparr>)
               ann 200 tokenA emptyRequest []))
     = Thrown dbError \<and>
   asyncHandler (Thrown dbError)
     = \<lparr> resStatus = 500, resCookies = [],
         resBody = ErrorBody False ''connection lost'' (CodeStr ''SERVER_ERROR'') \<rparr>"
  by (simp add: example_defs server_defs)

text \<open>
  C7, amended. In \<^verbatim>\<open>sendTokenResponse\<close>, which login and register call once the identity
  is validated: a failure persisting the refresh record changes nothing in what the
  caller receives, and when \<^verbatim>\<open>user.save\<close> succeeds the caller receives the success
  response with the access token, in the cookie and in the body; when \<^verbatim>\<open>user.save\<close>
  throws, the error goes to the error handler and the caller receives its error response,
  with no cookie and no access token.
\<close>

theorem issuance_best_effort:
  "snd (snd (sendTokenResponse cfg (w\<lparr>createFault := f\<rparr>) u statusCode refreshTokenArg req db))
     = snd (snd (sendTokenResponse cfg w u statusCode refreshTokenArg req db)) \<and>
   (userSaveFault w = None \<longrightarrow>
      snd (snd (sendTokenResponse cfg w u statusCode refreshTokenArg req db))
        = Sent \<lparr> resStatus = statusCode,
                 resCookies = [(''token'', generateAccessToken cfg w (user_id u),
                                accessCookieOptions cfg w)],
                 resBody = AuthBody True ''Authentication successful''
                             (getPublicProfile (u\<lparr>lastLogin := Some (now w)\<rparr>))
                             (generateAccessToken cfg w (user_id u)) \<rparr>) \<and>
   (userSaveFault w = Some e \<longrightarrow>
      snd (snd (sendTokenResponse cfg w u statusCode refreshTokenArg req db)) = Thrown e
      \<and> asyncHandler (snd (snd (sendTokenResponse cfg w u statusCode refreshTokenArg req db)))
          = errorHandler e
      \<and> resCookies (errorHandler e) = []
      \<and> (\<exists>m c. resBody (errorHandler e) = ErrorBody False m c))"
proof -
  have a: "snd (snd (sendTokenResponse cfg (w\<lparr>createFault := f\<rparr>) u statusCode refreshTokenArg req db))
     = snd (snd (sendTokenResponse cfg w u statusCode refreshTokenArg req db))"
    by (simp add: sendTokenResponse_def Let_def generateAccessToken_def accessCookieOptions_def
             split: option.split)
  have b: "userSaveFault w = None \<longrightarrow>
      snd (snd (sendTokenResponse cfg w u statusCode refreshTokenArg req db))
        = Sent \<lparr> resStatus = statusCode,
                 resCookies = [(''token'', generateAccessToken cfg w (user_id u),
                                accessCookieOptions cfg w)],
                 resBody = AuthBody True ''Authentication successful''
                             (getPublicProfile (u\<lparr>lastLogin := Some (now w)\<rparr>))
                             (generateAccessToken cfg w (user_id u)) \<rparr>"
    by (simp add: sendTokenResponse_def Let_def)
  have c: "userSaveFault w = Some e \<longrightarrow>
      snd (snd (sendTokenResponse cfg w u statusCode refreshTokenArg req db)) = Thrown e"
    by (simp add: sendTokenResponse_def Let_def)
  from a b c errorHandler_cookies [of e] errorHandler_body [of e] show ?thesis
    by auto
qed

theorem issuance_best_effort_witness:
  "snd (snd (sendTokenResponse exampleConfig ((quietWorld 5000)\<lparr>createFault := Some dbError\<rparr>)
               ann 200 tokenA emptyRequest []))
     = Sent \<lparr> resStatus = 200,
              resCookies = [(''token'', generateAccessToken exampleConfig (quietWorld 5000) ''u1'',
                             accessCookieOptions exampleConfig (quietWorld 5000))],
              resBody = AuthBody True ''Authentication successful''
                          (getPublicProfile (ann\<lparr>lastLogin := Some 5000\<rparr>))
                          (generateAccessToken exampleConfig (quietWorld 5000) ''u1'') \<rparr> \<and>
   snd (snd (sendTokenResponse exampleConfig ((quietWorld 5000)\<lparr>userSaveFault := Some dbError\<rparr>)
               ann 200 tokenA emptyRequest []))
     = Thrown dbError \<and>
   resCookies (errorHandler dbError) = []"
  using issuance_best_effort [where cfg = exampleConfig and w = "quietWorld 5000"
          and f = "Some dbError" and u = ann and statusCode = 200 and refreshTokenArg = tokenA
          and req = emptyRequest and db = "[]" and e = dbError]
        issuance_best_effort [where cfg = exampleConfig
          and w = "(quietWorld 5000)\<lparr>userSaveFault := Some dbError\<rparr>"
          and f = None and u = ann and statusCode = 200 and refreshTokenArg = tokenA
          and req = emptyRequest and db = "[]" and e = dbError]
  by (simp add: quietWorld_def ann_def generateAccessToken_def accessCookieOptions_def)

subsection \<open>The client's single refresh\<close>

lemma run_Nil: "run c [] = c"
  by (simp add: run_def)

lemma run_Cons: "run c (e # es) = run (step c e) es"
  by (simp add: run_def)

lemma run_append: "run c (es @ fs) = run (run c es) fs"
  by (simp add: run_def)

text \<open>While a refresh is under way, every 401 for a request not yet retried only joins the
  queue.\<close>

lemma queued_while_refreshing:
  "isRefreshing c \<Longrightarrow> allUnauthorized ps \<Longrightarrow>
     run c (failures ps) = c\<lparr>failedQueue := failedQueue c @ map fst ps\<rparr>"
proof (induction ps arbitrary: c)
  case Nil
  then show ?case by (simp add: failures_def run_Nil)
next
  case (Cons p ps)
  let ?c1 = "c\<lparr>failedQueue := failedQueue c @ [fst p]\<rparr>"
  from Cons.prems have p: "failureStatus (snd p) = Some 401" "\<not> retry (fst p)"
    and ps: "allUnauthorized ps"
    by (simp_all add: allUnauthorized_def)
  have s: "step c (ResponseError (fst p) (snd p)) = ?c1"
    using Cons.prems(1) p by (simp add: onRejected_def)
  have r: "isRefreshing ?c1" using Cons.prems(1) by simp
  have "run c (failures (p # ps)) = run ?c1 (failures ps)"
    using s by (simp add: failures_def run_Cons)
  also have "\<dots> = ?c1\<lparr>failedQueue := failedQueue ?c1 @ map fst ps\<rparr>"
    using Cons.IH [OF r ps] .
  finally show ?case by simp
qed

text \<open>The first 401 in the idle state starts the one refresh call.\<close>

lemma first_starts_refresh:
  "\<not> isRefreshing c \<Longrightarrow> failureStatus e = Some 401 \<Longrightarrow> \<not> retry r \<Longrightarrow>
     step c (ResponseError r e) =
       c\<lparr>isRefreshing := True, awaiting := Some (r\<lparr>retry := True\<rparr>),
         refreshCalls := Suc (refreshCalls c)\<rparr>"
  by (simp add: onRejected_def)

lemma resubmit_same: "resubmit (Some t) t q = q\<lparr>Authorization := Some (bearer t)\<rparr>"
  by (simp add: resubmit_def requestInterceptor_def)

lemma collapse_state:
  assumes "idle c" and "allUnauthorized (p # ps)"
  shows "run c (failures (p # ps)) =
           c\<lparr>isRefreshing := True, awaiting := Some ((fst p)\<lparr>retry := True\<rparr>),
             refreshCalls := Suc (refreshCalls c), failedQueue := map fst ps\<rparr>"
proof -
  from assms(2) have p: "failureStatus (snd p) = Some 401" "\<not> retry (fst p)"
    and ps: "allUnauthorized ps"
    by (simp_all add: allUnauthorized_def)
  let ?c1 = "c\<lparr>isRefreshing := True, awaiting := Some ((fst p)\<lparr>retry := True\<rparr>),
               refreshCalls := Suc (refreshCalls c)\<rparr>"
  have "step c (ResponseError (fst p) (snd p)) = ?c1"
    using assms(1) p by (simp add: onRejected_def idle_def)
  then have "run c (failures (p # ps)) = run ?c1 (failures ps)"
    by (simp add: failures_def run_Cons)
  also have "\<dots> = ?c1\<lparr>failedQueue := failedQueue ?c1 @ map fst ps\<rparr>"
    using ps by (intro queued_while_refreshing) simp_all
  finally show ?thesis using assms(1) by (simp add: idle_def)
qed

text \<open>
  C3. From the idle state, let N requests, none retried yet, each receive a 401 before
  the refresh call answers. Then the refresh endpoint is called exactly once. If it
  answers with an access token, every one of the N requests is submitted again exactly
  once, all with \<^verbatim>\<open>Bearer\<close> and that same token, the token is stored, and none is
  rejected. If it fails, all N are rejected with the refresh error, none is submitted
  again, the slot is cleared and the logout event dispatched. Either way the state is
  idle again.
\<close>

theorem single_flight_collapse:
  "idle c \<and> allUnauthorized (p # ps) \<longrightarrow>
     run c (failures (p # ps) @ [RefreshOk (Some (ResponseBody (Some (PayloadData (Some t)))))])
       = c\<lparr>refreshCalls := Suc (refreshCalls c),
           accessTokenSlot := Some t,
           resubmitted := resubmitted c @
             map (\<lambda>q. q\<lparr>Authorization := Some (bearer t)\<rparr>) ((fst p)\<lparr>retry := True\<rparr> # map fst ps),
           isRefreshing := False, failedQueue := [], awaiting := None\<rparr>
     \<and> idle (run c (failures (p # ps) @ [RefreshOk (Some (ResponseBody (Some (PayloadData (Some t)))))]))
     \<and> run c (failures (p # ps) @ [RefreshError e])
       = c\<lparr>refreshCalls := Suc (refreshCalls c),
           accessTokenSlot := None,
           logoutEvents := Suc (logoutEvents c),
           rejected := rejected c @ map (\<lambda>q. (q, e)) (map fst ps @ [(fst p)\<lparr>retry := True\<rparr>]),
           isRefreshing := False, failedQueue := [], awaiting := None\<rparr>
     \<and> idle (run c (failures (p # ps) @ [RefreshError e]))"
proof (intro impI, elim conjE)
  assume i: "idle c" and u: "allUnauthorized (p # ps)"
  let ?c2 = "c\<lparr>isRefreshing := True, awaiting := Some ((fst p)\<lparr>retry := True\<rparr>),
               refreshCalls := Suc (refreshCalls c), failedQueue := map fst ps\<rparr>"
  have q: "run c (failures (p # ps)) = ?c2"
    using i u by (rule collapse_state)
  have ok: "run c (failures (p # ps) @ [RefreshOk (Some (ResponseBody (Some (PayloadData (Some t)))))])
       = c\<lparr>refreshCalls := Suc (refreshCalls c),
           accessTokenSlot := Some t,
           resubmitted := resubmitted c @
             map (\<lambda>q. q\<lparr>Authorization := Some (bearer t)\<rparr>) ((fst p)\<lparr>retry := True\<rparr> # map fst ps),
           isRefreshing := False, failedQueue := [], awaiting := None\<rparr>"
    by (simp add: run_append q run_Cons run_Nil refreshAnswered_def processQueue_def
          templateString_def resubmit_same Let_def)
  have bad: "run c (failures (p # ps) @ [RefreshError e])
       = c\<lparr>refreshCalls := Suc (refreshCalls c),
           accessTokenSlot := None,
           logoutEvents := Suc (logoutEvents c),
           rejected := rejected c @ map (\<lambda>q. (q, e)) (map fst ps @ [(fst p)\<lparr>retry := True\<rparr>]),
           isRefreshing := False, failedQueue := [], awaiting := None\<rparr>"
    by (simp add: run_append q run_Cons run_Nil refreshRejected_def refreshFailed_def
          processQueue_def Let_def)
  show "run c (failures (p # ps) @ [RefreshOk (Some (ResponseBody (Some (PayloadData (Some t)))))])
       = c\<lparr>refreshCalls := Suc (refreshCalls c),
           accessTokenSlot := Some t,
           resubmitted := resubmitted c @
             map (\<lambda>q. q\<lparr>Authorization := Some (bearer t)\<rparr>) ((fst p)\<lparr>retry := True\<rparr> # map fst ps),
           isRefreshing := False, failedQueue := [], awaiting := None\<rparr>
     \<and> idle (run c (failures (p # ps) @ [RefreshOk (Some (ResponseBody (Some (PayloadData (Some t)))))]))
     \<and> run c (failures (p # ps) @ [RefreshError e])
       = c\<lparr>refreshCalls := Suc (refreshCalls c),
           accessTokenSlot := None,
           logoutEvents := Suc (logoutEvents c),
           rejected := rejected c @ map (\<lambda>q. (q, e)) (map fst ps @ [(fst p)\<lparr>retry := True\<rparr>]),
           isRefreshing := False, failedQueue := [], awaiting := None\<rparr>
     \<and> idle (run c (failures (p # ps) @ [RefreshError e]))"
    unfolding ok bad by (simp add: idle_def)
qed

theorem single_flight_collapse_witness:
  "refreshCalls (run idleClient
      (failures fiveFailures
       @ [RefreshOk (Some (ResponseBody (Some (PayloadData (Some ''new-token'')))))])) = 1 \<and>
   resubmitted (run idleClient
      (failures fiveFailures
       @ [RefreshOk (Some (ResponseBody (Some (PayloadData (Some ''new-token'')))))]))
     = [\<lparr> url = ''/expenses'', retry = True, Authorization = Some ''Bearer new-token'' \<rparr>,
        \<lparr> url = ''/expenses/stats'', retry = False, Authorization = Some ''Bearer new-token'' \<rparr>,
        \<lparr> url = ''/auth/me'', retry = False, Authorization = Some ''Bearer new-token'' \<rparr>,
        \<lparr> url = ''/expenses/trends'', retry = False, Authorization = Some ''Bearer new-token'' \<rparr>,
        \<lparr> url = ''/expenses/export'', retry = False, Authorization = Some ''Bearer new-token'' \<rparr>] \<and>
   accessTokenSlot (run idleClient
      (failures fiveFailures
       @ [RefreshOk (Some (ResponseBody (Some (PayloadData (Some ''new-token'')))))]))
     = Some ''new-token'' \<and>
   idle (run idleClient
      (failures fiveFailures
       @ [RefreshOk (Some (ResponseBody (Some (PayloadData (Some ''new-token'')))))])) \<and>
   refreshCalls (run idleClient (failures fiveFailures @ [RefreshError refreshFailure])) = 1 \<and>
   map snd (rejected (run idleClient (failures fiveFailures @ [RefreshError refreshFailure])))
     = [refreshFailure, refreshFailure, refreshFailure, refreshFailure, refreshFailure] \<and>
   resubmitted (run idleClient (failures fiveFailures @ [RefreshError refreshFailure])) = [] \<and>
   idle (run idleClient (failures fiveFailures @ [RefreshError refreshFailure]))"
proof -
  have h: "idle idleClient \<and>
           allUnauthorized ((firstRequest, unauthorized) # map (\<lambda>q. (q, unauthorized)) otherRequests)"
    by (simp add: idle_def idleClient_def allUnauthorized_def firstRequest_def otherRequests_def
          unauthorized_def)
  note t = single_flight_collapse [where c = idleClient and p = "(firstRequest, unauthorized)"
             and ps = "map (\<lambda>q. (q, unauthorized)) otherRequests" and t = "''new-token''"
             and e = refreshFailure, folded fiveFailures_def]
  from t h have ok: "run idleClient
      (failures fiveFailures
       @ [RefreshOk (Some (ResponseBody (Some (PayloadData (Some ''new-token'')))))])
     = idleClient\<lparr>refreshCalls := Suc (refreshCalls idleClient),
         accessTokenSlot := Some ''new-token'',
         resubmitted := resubmitted idleClient @
           map (\<lambda>q. q\<lparr>Authorization := Some (bearer ''new-token'')\<rparr>)
             ((fst (firstRequest, unauthorized))\<lparr>retry := True\<rparr>
                # map fst (map (\<lambda>q. (q, unauthorized)) otherRequests)),
         isRefreshing := False, failedQueue := [], awaiting := None\<rparr>"
    by (simp add: fiveFailures_def)
  from t h have bad: "run idleClient (failures fiveFailures @ [RefreshError refreshFailure])
     = idleClient\<lparr>refreshCalls := Suc (refreshCalls idleClient),
         accessTokenSlot := None,
         logoutEvents := Suc (logoutEvents idleClient),
         rejected := rejected idleClient @ map (\<lambda>q. (q, refreshFailure))
           (map fst (map (\<lambda>q. (q, unauthorized)) otherRequests)
              @ [(fst (firstRequest, unauthorized))\<lparr>retry := True\<rparr>]),
         isRefreshing := False, failedQueue := [], awaiting := None\<rparr>"
    by (simp add: fiveFailures_def)
  show ?thesis
    unfolding ok bad
    by (simp add: idle_def idleClient_def firstRequest_def otherRequests_def bearer_def)
qed

text \<open>Every handler keeps the module state consistent, so whenever no refresh is under
  way the client is idle, as the theorem above supposes.\<close>

lemma consistent_step: "consistent c \<Longrightarrow> consistent (step c ev)"
proof (cases ev)
  case (ResponseOk d)
  assume "consistent c"
  then show ?thesis using ResponseOk
    by (auto simp: consistent_def onFulfilled_def split: option.splits)
next
  case (ResponseError r e)
  assume "consistent c"
  then show ?thesis using ResponseError
    by (auto simp: consistent_def onRejected_def)
next
  case (RefreshOk d)
  assume "consistent c"
  then show ?thesis using RefreshOk
    by (auto simp: consistent_def refreshAnswered_def refreshFailed_def processQueue_def Let_def
             split: option.splits)
next
  case (RefreshError e)
  assume "consistent c"
  then show ?thesis using RefreshError
    by (auto simp: consistent_def refreshRejected_def refreshFailed_def processQueue_def Let_def
             split: option.splits)
qed

lemma consistent_run: "consistent c \<Longrightarrow> consistent (run c evs)"
  by (induction evs arbitrary: c) (simp_all add: run_Nil run_Cons consistent_step)

lemma idle_when_not_refreshing:
  "consistent c \<Longrightarrow> \<not> isRefreshing (run c evs) \<Longrightarrow> idle (run c evs)"
  using consistent_run [of c evs] by (auto simp: consistent_def idle_def)

subsection \<open>Reuse of a rotated token, in general\<close>

lemma findIndex_None: "(findIndex P xs = None) = (\<forall>x\<in>set xs. \<not> P x)"
  by (induction xs) auto

lemma jwt_verify_same_payload:
  "jwt_verify tok secret t1 = Inr p1 \<Longrightarrow> jwt_verify tok secret t2 = Inr p2 \<Longrightarrow> p1 = p2"
  by (cases tok) (auto split: if_splits)

text \<open>What a successful rotation leaves behind: the found document revoked and, at the
  end of the collection, an unrevoked document of the token's user.\<close>

lemma rotation_success_shape:
  assumes "refreshToken cfg w req db = (db1, Sent r)"
  shows "\<exists>tok decoded uid i.
           orToken (cookies_refreshToken req) (body_refreshToken req) = Some tok \<and>
           jwt_verify tok (JWT_REFRESH_SECRET cfg) (now w) = Inr decoded \<and>
           claimsId (payloadClaims decoded) = Some uid \<and>
           db1 = revokeAt i db @ [newRefreshTokenDoc cfg w req uid (generateRefreshToken cfg w uid)]"
  using assms
  by (auto simp: refreshToken_def Let_def split: option.splits sum.splits if_splits)

text \<open>
  After any successful rotation, the same request presented again, at a time when its
  token still verifies and with no database call failing, finds a document of the user:
  the handler never takes the branch for a token not found or revoked. If moreover none
  of the user's unrevoked documents has expired, the second rotation succeeds.
\<close>

lemma reused_token_found_again:
  assumes first: "refreshToken cfg w1 req db = (db1, Sent r1)"
    and tok: "orToken (cookies_refreshToken req) (body_refreshToken req) = Some tok"
    and ver: "jwt_verify tok (JWT_REFRESH_SECRET cfg) (now w2) = Inr decoded"
  shows "findOne (claimsId (payloadClaims decoded)) db1 \<noteq> None"
proof -
  from rotation_success_shape [OF first] tok obtain decoded1 uid i where
    v1: "jwt_verify tok (JWT_REFRESH_SECRET cfg) (now w1) = Inr decoded1"
    and u: "claimsId (payloadClaims decoded1) = Some uid"
    and d: "db1 = revokeAt i db @ [newRefreshTokenDoc cfg w1 req uid (generateRefreshToken cfg w1 uid)]"
    by auto
  have same: "decoded1 = decoded" using v1 ver by (rule jwt_verify_same_payload)
  let ?n = "newRefreshTokenDoc cfg w1 req uid (generateRefreshToken cfg w1 uid)"
  have "?n \<in> set db1" using d by simp
  moreover have "Some (user ?n) = Some uid \<and> \<not> isRevoked ?n"
    by (simp add: newRefreshTokenDoc_def)
  ultimately show ?thesis
    using u same by (auto simp: findOne_def findIndex_None)
qed

lemma reused_token_accepted_again:
  assumes first: "refreshToken cfg w1 req db = (db1, Sent r1)"
    and tok: "orToken (cookies_refreshToken req) (body_refreshToken req) = Some tok"
    and ver: "jwt_verify tok (JWT_REFRESH_SECRET cfg) (now w2) = Inr decoded"
    and quiet: "findOneFault w2 = None" "saveFault w2 = None" "createFault w2 = None"
    and fresh: "\<forall>d\<in>set db1. \<not> isRevoked d \<longrightarrow> \<not> expiresAt d < now w2"
  shows "\<exists>db2 r2. refreshToken cfg w2 req db1 = (db2, Sent r2) \<and> resStatus r2 = 200"
proof -
  from reused_token_found_again [OF first tok ver]
  obtain j where j: "findOne (claimsId (payloadClaims decoded)) db1 = Some j" by auto
  then obtain uid where u: "claimsId (payloadClaims decoded) = Some uid"
    by (cases "claimsId (payloadClaims decoded)") (auto simp: findOne_def dest: findIndex_Some)
  from j u have jj: "j < length db1" "\<not> isRevoked (db1 ! j)"
    by (auto dest: findOne_Some)
  then have "\<not> expiresAt (db1 ! j) < now w2" using fresh by auto
  moreover have "truthy tok" using ver by (rule jwt_verify_truthy)
  ultimately show ?thesis
    using tok ver quiet j u by (simp add: refreshToken_def Let_def)
qed

end
